theory Spec2Isabelle
  imports Main
begin

section \<open>Python exceptions and values\<close>

text \<open>
  The exceptions that \<^verbatim>\<open>deploy/pphuman/pipeline.py\<close> can raise by itself. \<open>IllegalInput\<close>
  is the \<^verbatim>\<open>ValueError("Illegal Input, please set one of [...]")\<close> of
  \<^verbatim>\<open>Pipeline._parse_input\<close>; \<open>External\<close> is an exception that leaves a collaborator
  whose code is in another module (\<^verbatim>\<open>pipe_utils.get_test_images\<close>).
\<close>

datatype error =
    IllegalInput
  | KeyError string
  | NameError string
  | AttributeError string
  | TypeError string
  | ZeroDivisionError
  | External string

text \<open>Sequencing of statements that may raise: the first exception leaves the function.\<close>

definition bind_err :: "error + 'a \<Rightarrow> ('a \<Rightarrow> error + 'b) \<Rightarrow> error + 'b" where
  "bind_err m f = (case m of Inl e \<Rightarrow> Inl e | Inr x \<Rightarrow> f x)"

text \<open>\<^verbatim>\<open>for x in xs: body\<close> over a state, left to right, stopping at the first exception.\<close>

fun for_each :: "('x \<Rightarrow> 's \<Rightarrow> error + 's) \<Rightarrow> 'x list \<Rightarrow> 's \<Rightarrow> error + 's" where
  "for_each body [] s = Inr s"
| "for_each body (x # xs) s = (case body x s of Inl e \<Rightarrow> Inl e | Inr s' \<Rightarrow> for_each body xs s')"

text \<open>
  A value held in a stage result: a Python list of opaque items, or an opaque object
  (an array of boxes, a score). The items are not inspected by the pipeline.
\<close>

datatype 'a pyval = PyList "'a list" | PyObj 'a

text \<open>A stage result is a dictionary with string keys.\<close>

type_synonym 'a pydict = "string \<rightharpoonup> 'a pyval"

text \<open>\<^verbatim>\<open>d[k]\<close> on a dictionary raises KeyError for a missing key.\<close>

definition getitem :: "(string \<rightharpoonup> 'v) \<Rightarrow> string \<Rightarrow> error + 'v" where
  "getitem d k = (case d k of None \<Rightarrow> Inl (KeyError k) | Some v \<Rightarrow> Inr v)"

text \<open>
  \<^verbatim>\<open>self.name\<close> for an attribute that the constructor assigns on some paths only:
  \<open>None\<close> is "never assigned", and reading it raises AttributeError.
\<close>

definition getattr :: "string \<Rightarrow> 'x option \<Rightarrow> error + 'x" where
  "getattr name v = (case v of None \<Rightarrow> Inl (AttributeError name) | Some x \<Rightarrow> Inr x)"

text \<open>\<^verbatim>\<open>x is not None\<close>, and the truth value of \<^verbatim>\<open>cfg.get(key, False)\<close>.\<close>

definition is_not_None :: "'x option \<Rightarrow> bool" where
  "is_not_None v = (case v of None \<Rightarrow> False | Some x \<Rightarrow> True)"

section \<open>The class Result\<close>

text \<open>
  \<^verbatim>\<open>
  class Result(object):
      def __init__(self):
          self.res_dict = {'det': dict(), 'mot': dict(), 'attr': dict(),
                           'kpt': dict(), 'action': dict()}
      def update(self, res, name):
          self.res_dict[name].update(res)
      def get(self, name):
          if name in self.res_dict:
              return self.res_dict[name]
          return None
  \<close>
  \<open>dict.update\<close> merges: the keys of \<open>res\<close> are overwritten, the other keys stay
  (\<open>d ++ res\<close>). \<open>get\<close> returns Python's \<open>None\<close> as \<open>None\<close>.
\<close>

record 'a Result =
  res_dict :: "string \<rightharpoonup> 'a pydict"

definition stage_names :: "string list" where
  "stage_names = [''det'', ''mot'', ''attr'', ''kpt'', ''action'']"

definition Result_init :: "'a Result" where
  "Result_init = \<lparr>res_dict = [''det'' \<mapsto> Map.empty, ''mot'' \<mapsto> Map.empty,
      ''attr'' \<mapsto> Map.empty, ''kpt'' \<mapsto> Map.empty, ''action'' \<mapsto> Map.empty]\<rparr>"

definition Result_update :: "'a Result \<Rightarrow> 'a pydict \<Rightarrow> string \<Rightarrow> error + 'a Result" where
  "Result_update self res name =
     (case res_dict self name of
        None \<Rightarrow> Inl (KeyError name)
      | Some d \<Rightarrow> Inr (self\<lparr>res_dict := (res_dict self)(name \<mapsto> d ++ res)\<rparr>))"

definition Result_get :: "'a Result \<Rightarrow> string \<Rightarrow> 'a pydict option" where
  "Result_get self name =
     (case res_dict self name of Some d \<Rightarrow> Some d | None \<Rightarrow> None)"

text \<open>A sequence of \<open>update\<close> calls on one store, stopping at the first exception.\<close>

definition Result_updates :: "'a Result \<Rightarrow> ('a pydict \<times> string) list \<Rightarrow> error + 'a Result" where
  "Result_updates self us = for_each (\<lambda>(res, name) r. Result_update r res name) us self"

section \<open>Pipeline input parsing\<close>

text \<open>
  The arguments of \<^verbatim>\<open>Pipeline._parse_input\<close>: \<open>video_file\<close> is a path or a list of
  paths, \<open>camera_id\<close> an integer or a sequence of integers (default \<open>-1\<close>);
  \<open>image_file\<close> and \<open>image_dir\<close> are paths or \<open>None\<close>.
\<close>

datatype video_arg = VideoPath string | VideoPaths "string list"

datatype camera_arg = CameraId int | CameraIds "int list"

text \<open>What \<^verbatim>\<open>cv2.VideoCapture\<close> is opened on.\<close>

datatype source = FromFile string | FromCamera int

text \<open>The parsed input: a list of image files, one capture, or a list of captures.\<close>

datatype 'cap pipe_input = Images "string list" | Capture 'cap | Captures "'cap list"

text \<open>
  \<^verbatim>\<open>
  def _parse_input(self, image_file, image_dir, video_file, camera_id):
      if image_file is not None or image_dir is not None:
          input = get_test_images(image_dir, image_file)
          self.is_video = False
          self.multi_camera = False
      elif video_file is not None:
          if isinstance(video_file, list):
              self.multi_camera = True
              input = [cv2.VideoCapture(v) for v in video_file]
          else:
              input = cv2.VideoCapture(video_file)
          self.is_video = True
      elif camera_id != -1:
          if isinstance(camera_id, Sequence):
              self.multi_camera = True
              input = [cv2.VideoCapture(i) for i in camera_id]
          else:
              input = cv2.VideoCapture(camera_id)
          self.is_video = True
      else:
          raise ValueError("Illegal Input, please set one of [...]")
      return input
  \<close>
  The method assigns \<open>self.is_video\<close> and \<open>self.multi_camera\<close>; the model takes their
  current values and returns the input with the new values \<open>(input, is_video,
  multi_camera)\<close>. \<open>get_test_images\<close> (module \<open>pipe_utils\<close>) and \<open>cv2.VideoCapture\<close>
  are parameters.
\<close>

definition parse_input ::
  "(string option \<Rightarrow> string option \<Rightarrow> string + string list) \<Rightarrow> (source \<Rightarrow> 'cap) \<Rightarrow>
   bool \<Rightarrow> bool \<Rightarrow> string option \<Rightarrow> string option \<Rightarrow> video_arg option \<Rightarrow> camera_arg \<Rightarrow>
   error + ('cap pipe_input \<times> bool \<times> bool)" where
  "parse_input get_test_images VideoCapture is_video multi_camera
       image_file image_dir video_file camera_id =
     (if is_not_None image_file \<or> is_not_None image_dir then
        (case get_test_images image_dir image_file of
           Inl m \<Rightarrow> Inl (External m)
         | Inr input \<Rightarrow> Inr (Images input, False, False))
      else
        (case video_file of
           Some (VideoPaths vs) \<Rightarrow>
             Inr (Captures (map (\<lambda>v. VideoCapture (FromFile v)) vs), True, True)
         | Some (VideoPath v) \<Rightarrow>
             Inr (Capture (VideoCapture (FromFile v)), True, multi_camera)
         | None \<Rightarrow>
             (case camera_id of
                CameraIds cs \<Rightarrow>
                  Inr (Captures (map (\<lambda>i. VideoCapture (FromCamera i)) cs), True, True)
              | CameraId c \<Rightarrow>
                  if c = - 1 then Inl IllegalInput
                  else Inr (Capture (VideoCapture (FromCamera c)), True, multi_camera))))"

text \<open>
  The claim's words, for comparison with the code: the number of the four source
  arguments that are supplied (\<open>camera_id\<close> counts unless it is the default \<open>-1\<close>).
\<close>

definition spec_sources_given ::
  "string option \<Rightarrow> string option \<Rightarrow> video_arg option \<Rightarrow> camera_arg \<Rightarrow> nat" where
  "spec_sources_given image_file image_dir video_file camera_id =
     (if is_not_None image_file then 1 else 0) + (if is_not_None image_dir then 1 else 0)
   + (if is_not_None video_file then 1 else 0) + (if camera_id = CameraId (- 1) then 0 else 1)"

section \<open>Configuration, timer and collaborators\<close>

text \<open>
  The merged configuration (\<^verbatim>\<open>merge_cfg\<close> is in \<^verbatim>\<open>pipe_utils\<close>). The pipeline reads the
  sections \<open>DET\<close>, \<open>MOT\<close>, \<open>ATTR\<close>, \<open>ACTION\<close> and the keys \<open>visual\<close> and \<open>crop_thresh\<close>.
  A section carries \<open>model_dir\<close>, \<open>batch_size\<close> and, for \<open>MOT\<close>, \<open>tracker_config\<close>. A key
  that is absent is \<open>None\<close>: \<^verbatim>\<open>cfg[key]\<close> then raises KeyError, and
  \<^verbatim>\<open>cfg.get(key, False)\<close> is false. The threshold is only handed on to the renderer,
  so its text stands for it.
\<close>

record stage_cfg =
  model_dir :: string
  batch_size :: int
  tracker_config :: string

record config =
  DET :: "stage_cfg option"
  MOT :: "stage_cfg option"
  ATTR :: "stage_cfg option"
  ACTION :: "stage_cfg option"
  visual :: "bool option"
  crop_thresh :: "string option"

definition cfg_getitem :: "string \<Rightarrow> 'x option \<Rightarrow> error + 'x" where
  "cfg_getitem key v = (case v of None \<Rightarrow> Inl (KeyError key) | Some x \<Rightarrow> Inr x)"

text \<open>
  Modelled from the spec: \<^verbatim>\<open>PipeTimer\<close> and \<^verbatim>\<open>Times\<close> are in \<^verbatim>\<open>pipe_utils\<close>, which is
  not among the sources. The spec's StageTimer has one accumulator per stage
  (\<open>det, mot, attr, kpt, action\<close>), one for the total, and the counter \<open>img_num\<close>; a
  \<open>start\<close>/\<open>end\<close> pair brackets one interval and the duration is added by \<open>end\<close>. The
  clock is not modelled: an accumulator counts the \<open>start\<close> calls and the \<open>end\<close> calls
  made on it, so one timed interval is one more of each.
\<close>

record Times =
  starts :: nat
  ends :: nat

definition Times_init :: Times where
  "Times_init = \<lparr>starts = 0, ends = 0\<rparr>"

definition Times_start :: "Times \<Rightarrow> Times" where
  "Times_start t = t\<lparr>starts := Suc (starts t)\<rparr>"

definition Times_end :: "Times \<Rightarrow> Times" where
  "Times_end t = t\<lparr>ends := Suc (ends t)\<rparr>"

record PipeTimer =
  total_time :: Times
  module_time :: "string \<rightharpoonup> Times"
  img_num :: int

definition PipeTimer_init :: PipeTimer where
  "PipeTimer_init = \<lparr>total_time = Times_init,
     module_time = [''det'' \<mapsto> Times_init, ''mot'' \<mapsto> Times_init, ''attr'' \<mapsto> Times_init,
                    ''kpt'' \<mapsto> Times_init, ''action'' \<mapsto> Times_init],
     img_num = 0\<rparr>"

text \<open>\<^verbatim>\<open>self.pipe_timer.total_time.start()\<close> and \<^verbatim>\<open>.end()\<close>.\<close>

definition total_time_start :: "PipeTimer \<Rightarrow> PipeTimer" where
  "total_time_start t = t\<lparr>total_time := Times_start (total_time t)\<rparr>"

definition total_time_end :: "PipeTimer \<Rightarrow> PipeTimer" where
  "total_time_end t = t\<lparr>total_time := Times_end (total_time t)\<rparr>"

text \<open>\<^verbatim>\<open>self.pipe_timer.module_time[name].start()\<close> and \<^verbatim>\<open>.end()\<close>.\<close>

definition module_time_start :: "string \<Rightarrow> PipeTimer \<Rightarrow> error + PipeTimer" where
  "module_time_start name t =
     bind_err (getitem (module_time t) name)
       (\<lambda>ts. Inr (t\<lparr>module_time := (module_time t)(name \<mapsto> Times_start ts)\<rparr>))"

definition module_time_end :: "string \<Rightarrow> PipeTimer \<Rightarrow> error + PipeTimer" where
  "module_time_end name t =
     bind_err (getitem (module_time t) name)
       (\<lambda>ts. Inr (t\<lparr>module_time := (module_time t)(name \<mapsto> Times_end ts)\<rparr>))"

text \<open>
  The calls that leave the pipeline, in the order made: a record kept beside the state
  so that the order of stage dispatch can be stated. \<open>'f\<close> is an image (a decoded file,
  a video frame, a crop), \<open>'a\<close> an opaque item of a stage result.
\<close>

datatype ('a, 'f) event =
    EvDet "'f list"
  | EvMot 'f
  | EvAttr "'f list"
  | EvKpt "'f list"
  | EvSave string 'f
  | EvWrite 'f
  | EvRelease

text \<open>
  The collaborators, whose code is in other modules. The predictors keep state of their
  own between calls (the tracker does): \<open>'w\<close> is that state, owned by one
  \<open>PipePredictor\<close>, taken and returned by every predictor call. \<open>render\<close> stands for the
  array slicing and drawing of \<open>visualize_image\<close> and \<open>visualize_video\<close>
  (\<open>visualize_box_mask\<close>, \<open>visualize_attr\<close>, \<open>plot_tracking\<close>), given the image, the
  result store and the index of the image or frame. The arrays are opaque values, so
  what the in-place column assignments of \<open>visualize_video\<close> leave in the array of
  boxes is a parameter too: \<open>boxes_inplace\<close>.
\<close>

record ('w, 'a, 'f) collab =
  decode_image :: "string \<Rightarrow> 'f"
  det_predict :: "'w \<Rightarrow> 'f list \<Rightarrow> 'a pydict \<times> 'w"
  crop_image_with_det :: "'f list \<Rightarrow> 'a pydict \<Rightarrow> 'f list list"
  attr_predict :: "'w \<Rightarrow> 'f list \<Rightarrow> 'a pydict \<times> 'w"
  mot_predict :: "'w \<Rightarrow> 'f list \<Rightarrow> 'a \<times> 'w"
  parse_mot_res :: "'a \<Rightarrow> 'a pydict"
  crop_image_with_mot :: "'f \<Rightarrow> 'a pydict \<Rightarrow> 'f list"
  kpt_predict :: "'w \<Rightarrow> 'f list \<Rightarrow> 'a pydict \<times> 'w"
  collector_update :: "'w \<Rightarrow> 'a pydict \<Rightarrow> 'w"
  collector_state :: "'w \<Rightarrow> bool"
  collector_collate :: "'w \<Rightarrow> 'a \<times> 'w"
  action_predict_kpt :: "'w \<Rightarrow> 'a \<Rightarrow> 'a pydict \<times> 'w"
  render :: "'f \<Rightarrow> 'a Result \<Rightarrow> nat \<Rightarrow> 'f"
  boxes_inplace :: "'a pyval \<Rightarrow> 'a pyval"

section \<open>The class PipePredictor\<close>

text \<open>
  The attributes of a \<open>PipePredictor\<close>. \<open>with_attr\<close> and \<open>with_action\<close> hold
  \<^verbatim>\<open>cfg.get('ATTR', False)\<close> and \<^verbatim>\<open>cfg.get('ACTION', False)\<close>: the section, or \<open>None\<close>
  for \<open>False\<close>. A predictor attribute that the constructor has not assigned is \<open>None\<close>; an
  assigned one is represented by the section it was built from (the detector keeps its
  \<open>batch_size\<close>). \<open>ext\<close> is the state of this predictor's collaborators and \<open>trace\<close>
  the record of its outgoing calls.
\<close>

record ('w, 'a, 'f) PipePredictor =
  with_attr :: "stage_cfg option"
  with_action :: "stage_cfg option"
  is_video :: bool
  multi_camera :: bool
  cfg :: config
  output_dir :: string
  warmup_frame :: int
  pipeline_res :: "'a Result"
  pipe_timer :: PipeTimer
  det_predictor :: "stage_cfg option"
  attr_predictor :: "stage_cfg option"
  mot_predictor :: "stage_cfg option"
  kpt_predictor :: "unit option"
  kpt_collector :: "unit option"
  action_predictor :: "unit option"
  ext :: 'w
  trace :: "('a, 'f) event list"

text \<open>
  \<^verbatim>\<open>
  def __init__(self, cfg, is_video=True, multi_camera=False, ..., output_dir='output'):
      self.with_attr = cfg.get('ATTR', False)
      self.with_action = cfg.get('ACTION', False)
      self.is_video = is_video
      self.multi_camera = multi_camera
      self.cfg = cfg
      self.output_dir = output_dir
      self.warmup_frame = 1
      self.pipeline_res = Result()
      self.pipe_timer = PipeTimer()
      if not is_video:
          det_cfg = self.cfg['DET']
          ...
          self.det_predictor = Detector(model_dir, ..., batch_size, ...)
          if self.with_attr:
              attr_cfg = self.cfg['ATTR']
              ...
              self.attr_predictor = AttrDetector(...)
      else:
          mot_cfg = self.cfg['MOT']
          ...
          self.mot_predictor = SDE_Detector(...)
          if self.with_attr:
              attr_cfg = self.cfg['ATTR']
              ...
              self.attr_predictor = AttrDetector(...)
          if self.with_action:
              self.kpt_predictor = KeyPointDetector()
              self.kpt_collector = KeyPointCollector()
              self.action_predictor = ActionDetector()
  \<close>
  \<open>KeyPointDetector\<close>, \<open>KeyPointCollector\<close> and \<open>ActionDetector\<close> are neither imported
  nor defined in the module: evaluating the first of them raises NameError. The model
  loading of \<open>Detector\<close>, \<open>SDE_Detector\<close> and \<open>AttrDetector\<close> is taken to succeed; \<open>w\<close> is
  the initial state of the predictors, and \<open>c\<close>, \<open>video\<close>, \<open>multi\<close>, \<open>out_dir\<close> are the
  arguments \<open>cfg\<close>, \<open>is_video\<close>, \<open>multi_camera\<close>, \<open>output_dir\<close>.
\<close>

definition PipePredictor_init ::
  "'w \<Rightarrow> config \<Rightarrow> bool \<Rightarrow> bool \<Rightarrow> string \<Rightarrow> error + ('w, 'a, 'f) PipePredictor" where
  "PipePredictor_init w c video multi out_dir =
     (let self = \<lparr>with_attr = ATTR c, with_action = ACTION c,
                  is_video = video, multi_camera = multi,
                  cfg = c, output_dir = out_dir, warmup_frame = 1,
                  pipeline_res = Result_init, pipe_timer = PipeTimer_init,
                  det_predictor = None, attr_predictor = None, mot_predictor = None,
                  kpt_predictor = None, kpt_collector = None, action_predictor = None,
                  ext = w, trace = []\<rparr>
      in
      if \<not> video then
        bind_err (cfg_getitem ''DET'' (DET (cfg self))) (\<lambda>det_cfg.
        let self = self\<lparr>det_predictor := Some det_cfg\<rparr> in
        if is_not_None (with_attr self) then
          bind_err (cfg_getitem ''ATTR'' (ATTR (cfg self))) (\<lambda>attr_cfg.
          Inr (self\<lparr>attr_predictor := Some attr_cfg\<rparr>))
        else Inr self)
      else
        bind_err (cfg_getitem ''MOT'' (MOT (cfg self))) (\<lambda>mot_cfg.
        let self = self\<lparr>mot_predictor := Some mot_cfg\<rparr> in
        bind_err
          (if is_not_None (with_attr self) then
             bind_err (cfg_getitem ''ATTR'' (ATTR (cfg self))) (\<lambda>attr_cfg.
             Inr (self\<lparr>attr_predictor := Some attr_cfg\<rparr>))
           else Inr self) (\<lambda>self.
        if is_not_None (with_action self) then Inl (NameError ''KeyPointDetector'')
        else Inr self)))"

text \<open>\<^verbatim>\<open>def get_result(self): return self.pipeline_res\<close>\<close>

definition get_result :: "('w, 'a, 'f) PipePredictor \<Rightarrow> 'a Result" where
  "get_result self = pipeline_res self"

section \<open>Image mode\<close>

text \<open>
  \<^verbatim>\<open>xs[start:stop]\<close>: a negative index counts from the end, and both ends are clipped
  to the list.
\<close>

definition py_slice :: "'x list \<Rightarrow> int \<Rightarrow> int \<Rightarrow> 'x list" where
  "py_slice xs start stop =
     (let n = int (length xs);
          lo = (if start < 0 then max 0 (start + n) else min start n);
          hi = (if stop < 0 then max 0 (stop + n) else min stop n)
      in drop (nat lo) (take (nat hi) xs))"

text \<open>
  \<^verbatim>\<open>math.ceil(float(a) / b)\<close> for integers \<open>a\<close> and \<open>b \<noteq> 0\<close>, as the exact ceiling of the
  quotient. The floating-point quotient has the same ceiling whenever \<open>a\<close> is below
  \<open>2^53\<close>, which the length of a list is.
\<close>

definition ceil_div :: "int \<Rightarrow> int \<Rightarrow> int" where
  "ceil_div a b = - ((- a) div b)"

text \<open>\<^verbatim>\<open>xs.extend(v)\<close>: \<open>v\<close> must be iterable.\<close>

definition list_extend :: "'a list \<Rightarrow> 'a pyval \<Rightarrow> error + 'a list" where
  "list_extend xs v =
     (case v of PyList ys \<Rightarrow> Inr (xs @ ys)
              | PyObj x \<Rightarrow> Inl (TypeError ''object is not iterable''))"

text \<open>
  The loop count and the slice of \<open>predict_image\<close>, for the batch size \<open>bs\<close> of the
  detector:
  \<^verbatim>\<open>
  batch_loop_cnt = math.ceil(float(len(input)) / self.det_predictor.batch_size)
  for i in range(batch_loop_cnt):
      start_index = i * self.det_predictor.batch_size
      end_index = min((i + 1) * self.det_predictor.batch_size, len(input))
      batch_file = input[start_index:end_index]
  \<close>
\<close>

definition batch_loop_cnt :: "'x list \<Rightarrow> int \<Rightarrow> int" where
  "batch_loop_cnt input bs = ceil_div (int (length input)) bs"

definition batch_file :: "'x list \<Rightarrow> int \<Rightarrow> nat \<Rightarrow> 'x list" where
  "batch_file input bs i =
     (let start_index = int i * bs;
          end_index = min ((int i + 1) * bs) (int (length input))
      in py_slice input start_index end_index)"

text \<open>
  The detection stage of one batch (\<open>i\<close> is the index of the batch):
  \<^verbatim>\<open>
  if i > self.warmup_frame:
      self.pipe_timer.total_time.start()
      self.pipe_timer.module_time['det'].start()
  det_res = self.det_predictor.predict_image(batch_input, visual=False)
  if i > self.warmup_frame:
      self.pipe_timer.module_time['det'].end()
  self.pipeline_res.update(det_res, 'det')
  \<close>
\<close>

definition image_det ::
  "('w, 'a, 'f) collab \<Rightarrow> 'f list \<Rightarrow> nat \<Rightarrow> ('w, 'a, 'f) PipePredictor \<Rightarrow>
   error + ('a pydict \<times> ('w, 'a, 'f) PipePredictor)" where
  "image_det E batch_input i self =
     bind_err (if int i > warmup_frame self
               then module_time_start ''det'' (total_time_start (pipe_timer self))
               else Inr (pipe_timer self)) (\<lambda>t1.
     case det_predict E (ext self) batch_input of (det_res, w1) \<Rightarrow>
     bind_err (if int i > warmup_frame self then module_time_end ''det'' t1 else Inr t1) (\<lambda>t2.
     bind_err (Result_update (pipeline_res self) det_res ''det'') (\<lambda>r1.
     Inr (det_res, self\<lparr>pipe_timer := t2, ext := w1, pipeline_res := r1,
                         trace := trace self @ [EvDet batch_input]\<rparr>))))"

text \<open>
  The attribute stage of one batch:
  \<^verbatim>\<open>
  crop_inputs = crop_image_with_det(batch_input, det_res)
  attr_res_list = []
  if i > self.warmup_frame:
      self.pipe_timer.module_time['attr'].start()
  for crop_input in crop_inputs:
      attr_res = self.attr_predictor.predict_image(crop_input, visual=False)
      attr_res_list.extend(attr_res['output'])
  if i > self.warmup_frame:
      self.pipe_timer.module_time['attr'].end()
  attr_res = {'output': attr_res_list}
  self.pipeline_res.update(attr_res, 'attr')
  \<close>
  The loop body works on the collaborator state, the list built so far and the trace.
\<close>

definition attr_item ::
  "('w, 'a, 'f) collab \<Rightarrow> stage_cfg option \<Rightarrow> 'f list \<Rightarrow>
   'w \<times> 'a list \<times> ('a, 'f) event list \<Rightarrow> error + ('w \<times> 'a list \<times> ('a, 'f) event list)" where
  "attr_item E predictor crop_input s =
     (case s of (w, attr_res_list, tr) \<Rightarrow>
      bind_err (getattr ''attr_predictor'' predictor) (\<lambda>p.
      case attr_predict E w crop_input of (attr_res, w1) \<Rightarrow>
      bind_err (getitem attr_res ''output'') (\<lambda>out.
      bind_err (list_extend attr_res_list out) (\<lambda>l.
      Inr (w1, l, tr @ [EvAttr crop_input])))))"

definition image_attr ::
  "('w, 'a, 'f) collab \<Rightarrow> 'f list \<Rightarrow> 'a pydict \<Rightarrow> nat \<Rightarrow> ('w, 'a, 'f) PipePredictor \<Rightarrow>
   error + ('w, 'a, 'f) PipePredictor" where
  "image_attr E batch_input det_res i self =
     (let crop_inputs = crop_image_with_det E batch_input det_res in
      bind_err (if int i > warmup_frame self
                then module_time_start ''attr'' (pipe_timer self)
                else Inr (pipe_timer self)) (\<lambda>t1.
      bind_err (for_each (attr_item E (attr_predictor self)) crop_inputs
                  (ext self, [], trace self)) (\<lambda>(w1, attr_res_list, tr).
      bind_err (if int i > warmup_frame self then module_time_end ''attr'' t1 else Inr t1) (\<lambda>t2.
      bind_err (Result_update (pipeline_res self) [''output'' \<mapsto> PyList attr_res_list] ''attr'')
        (\<lambda>r1.
      Inr (self\<lparr>pipe_timer := t2, ext := w1, pipeline_res := r1, trace := tr\<rparr>))))))"

text \<open>
  The counter and the end of the total interval:
  \<^verbatim>\<open>
  self.pipe_timer.img_num += len(batch_input)
  if i > self.warmup_frame:
      self.pipe_timer.total_time.end()
  \<close>
\<close>

definition image_count ::
  "'f list \<Rightarrow> nat \<Rightarrow> ('w, 'a, 'f) PipePredictor \<Rightarrow> ('w, 'a, 'f) PipePredictor" where
  "image_count batch_input i self =
     (let t = (pipe_timer self)\<lparr>img_num := img_num (pipe_timer self) + int (length batch_input)\<rparr>
      in self\<lparr>pipe_timer := (if int i > warmup_frame self then total_time_end t else t)\<rparr>)"

text \<open>
  \<open>visualize_image\<close>, for one image of the batch: the dictionary lookups are those of
  the source, in its order; the slicing and drawing are \<open>render\<close>, and \<open>im.save\<close> is the
  event \<open>EvSave\<close>.
  \<^verbatim>\<open>
  det_res = result.get('det')
  attr_res = result.get('attr')
  for i, (im_file, im) in enumerate(zip(im_files, images)):
      if det_res is not None:
          det_res_i = {}
          boxes_num_i = det_res['boxes_num'][i]
          det_res_i['boxes'] = det_res['boxes'][start_idx:start_idx + boxes_num_i, :]
          im = visualize_box_mask(im, det_res_i, labels=['person'],
                                  threshold=self.cfg['crop_thresh'])
      if attr_res is not None:
          attr_res_i = attr_res['output'][start_idx:start_idx + boxes_num_i]
          im = visualize_attr(im, attr_res_i, det_res_i['boxes'])
      ...
      im.save(out_path, quality=95)
  \<close>
\<close>

definition visualize_image_item ::
  "('w, 'a, 'f) collab \<Rightarrow> ('w, 'a, 'f) PipePredictor \<Rightarrow> nat \<times> string \<times> 'f \<Rightarrow>
   ('a, 'f) event list \<Rightarrow> error + ('a, 'f) event list" where
  "visualize_image_item E self x tr =
     (case x of (i, im_file, im) \<Rightarrow>
      bind_err
        (case Result_get (pipeline_res self) ''det'' of
           None \<Rightarrow> Inr ()
         | Some det_res \<Rightarrow>
             bind_err (getitem det_res ''boxes_num'') (\<lambda>boxes_num.
             bind_err (getitem det_res ''boxes'') (\<lambda>boxes.
             bind_err (cfg_getitem ''crop_thresh'' (crop_thresh (cfg self))) (\<lambda>threshold.
             Inr ())))) (\<lambda>u.
      bind_err
        (case Result_get (pipeline_res self) ''attr'' of
           None \<Rightarrow> Inr ()
         | Some attr_res \<Rightarrow>
             bind_err (getitem attr_res ''output'') (\<lambda>out.
             if is_not_None (Result_get (pipeline_res self) ''det'') then Inr ()
             else Inl (NameError ''det_res_i''))) (\<lambda>u.
      Inr (tr @ [EvSave im_file (render E im (pipeline_res self) i)]))))"

definition visualize_image ::
  "('w, 'a, 'f) collab \<Rightarrow> string list \<Rightarrow> 'f list \<Rightarrow> ('w, 'a, 'f) PipePredictor \<Rightarrow>
   error + ('w, 'a, 'f) PipePredictor" where
  "visualize_image E im_files images self =
     bind_err (for_each (visualize_image_item E self)
                 (zip [0..<length im_files] (zip im_files images)) (trace self))
       (\<lambda>tr. Inr (self\<lparr>trace := tr\<rparr>))"

text \<open>
  One pass of the loop of \<open>predict_image\<close>:
  \<^verbatim>\<open>
  start_index = i * self.det_predictor.batch_size
  end_index = min((i + 1) * self.det_predictor.batch_size, len(input))
  batch_file = input[start_index:end_index]
  batch_input = [decode_image(f, {})[0] for f in batch_file]
  (detection stage)
  if self.with_attr:
      (attribute stage)
  (counter)
  if self.cfg['visual']:
      self.visualize_image(batch_file, batch_input, self.pipeline_res)
  \<close>
\<close>

definition image_tick ::
  "('w, 'a, 'f) collab \<Rightarrow> string list \<Rightarrow> nat \<Rightarrow> ('w, 'a, 'f) PipePredictor \<Rightarrow>
   error + ('w, 'a, 'f) PipePredictor" where
  "image_tick E input i self =
     bind_err (getattr ''det_predictor'' (det_predictor self)) (\<lambda>det.
     let batch_input = map (decode_image E) (batch_file input (batch_size det) i) in
     bind_err (image_det E batch_input i self) (\<lambda>(det_res, self).
     bind_err (if is_not_None (with_attr self)
               then image_attr E batch_input det_res i self else Inr self) (\<lambda>self.
     let self = image_count batch_input i self in
     bind_err (cfg_getitem ''visual'' (visual (cfg self))) (\<lambda>vis.
     if vis then visualize_image E (batch_file input (batch_size det) i) batch_input self
     else Inr self))))"

text \<open>
  \<open>predict_image\<close>: the division raises ZeroDivisionError for a batch size of zero, and
  \<open>range\<close> of a count that is not positive is empty.
\<close>

definition predict_image ::
  "('w, 'a, 'f) collab \<Rightarrow> ('w, 'a, 'f) PipePredictor \<Rightarrow> string list \<Rightarrow>
   error + ('w, 'a, 'f) PipePredictor" where
  "predict_image E self input =
     bind_err (getattr ''det_predictor'' (det_predictor self)) (\<lambda>det.
     if batch_size det = 0 then Inl ZeroDivisionError
     else for_each (image_tick E input) [0..<nat (batch_loop_cnt input (batch_size det))] self)"

section \<open>Video mode\<close>

text \<open>
  The tracking stage of one frame:
  \<^verbatim>\<open>
  if frame_id > self.warmup_frame:
      self.pipe_timer.total_time.start()
      self.pipe_timer.module_time['mot'].start()
  res = self.mot_predictor.predict_image([frame], visual=False)
  if frame_id > self.warmup_frame:
      self.pipe_timer.module_time['mot'].end()
  mot_res = parse_mot_res(res)
  self.pipeline_res.update(mot_res, 'mot')
  \<close>
\<close>

definition video_mot ::
  "('w, 'a, 'f) collab \<Rightarrow> 'f \<Rightarrow> nat \<Rightarrow> ('w, 'a, 'f) PipePredictor \<Rightarrow>
   error + ('a pydict \<times> ('w, 'a, 'f) PipePredictor)" where
  "video_mot E frame frame_id self =
     bind_err (if int frame_id > warmup_frame self
               then module_time_start ''mot'' (total_time_start (pipe_timer self))
               else Inr (pipe_timer self)) (\<lambda>t1.
     bind_err (getattr ''mot_predictor'' (mot_predictor self)) (\<lambda>p.
     case mot_predict E (ext self) [frame] of (res, w1) \<Rightarrow>
     bind_err (if int frame_id > warmup_frame self then module_time_end ''mot'' t1 else Inr t1)
       (\<lambda>t2.
     let mot_res = parse_mot_res E res in
     bind_err (Result_update (pipeline_res self) mot_res ''mot'') (\<lambda>r1.
     Inr (mot_res, self\<lparr>pipe_timer := t2, ext := w1, pipeline_res := r1,
                         trace := trace self @ [EvMot frame]\<rparr>)))))"

text \<open>
  The attribute stage of one frame:
  \<^verbatim>\<open>
  if frame_id > self.warmup_frame:
      self.pipe_timer.module_time['attr'].start()
  attr_res = self.attr_predictor.predict_image(crop_input, visual=False)
  if frame_id > self.warmup_frame:
      self.pipe_timer.module_time['attr'].end()
  self.pipeline_res.update(attr_res, 'attr')
  \<close>
\<close>

definition video_attr ::
  "('w, 'a, 'f) collab \<Rightarrow> 'f list \<Rightarrow> nat \<Rightarrow> ('w, 'a, 'f) PipePredictor \<Rightarrow>
   error + ('w, 'a, 'f) PipePredictor" where
  "video_attr E crop_input frame_id self =
     bind_err (if int frame_id > warmup_frame self
               then module_time_start ''attr'' (pipe_timer self)
               else Inr (pipe_timer self)) (\<lambda>t1.
     bind_err (getattr ''attr_predictor'' (attr_predictor self)) (\<lambda>p.
     case attr_predict E (ext self) crop_input of (attr_res, w1) \<Rightarrow>
     bind_err (if int frame_id > warmup_frame self then module_time_end ''attr'' t1 else Inr t1)
       (\<lambda>t2.
     bind_err (Result_update (pipeline_res self) attr_res ''attr'') (\<lambda>r1.
     Inr (self\<lparr>pipe_timer := t2, ext := w1, pipeline_res := r1,
                trace := trace self @ [EvAttr crop_input]\<rparr>)))))"

text \<open>
  The keypoint and action stage of one frame:
  \<^verbatim>\<open>
  kpt_result = self.kpt_predictor.predict_image(crop_input)
  self.pipeline_res.update(kpt_result, 'kpt')
  self.kpt_collector.update(kpt_result)  # collect kpt output
  state = self.kpt_collector.state()  # whether frame num is enough
  if state:
      action_input = self.kpt_collector.collate()  # reorgnize kpt output in ID
      action_res = self.action_predictor.predict_kpt(action_input)
      self.pipeline_res.update(action, 'action')
  \<close>
  The name \<open>action\<close> in the last line is bound nowhere (the result was bound to
  \<open>action_res\<close>): evaluating the argument raises NameError before \<open>update\<close> is called.
\<close>

definition video_action ::
  "('w, 'a, 'f) collab \<Rightarrow> 'f list \<Rightarrow> ('w, 'a, 'f) PipePredictor \<Rightarrow>
   error + ('w, 'a, 'f) PipePredictor" where
  "video_action E crop_input self =
     bind_err (getattr ''kpt_predictor'' (kpt_predictor self)) (\<lambda>p.
     case kpt_predict E (ext self) crop_input of (kpt_result, w1) \<Rightarrow>
     bind_err (Result_update (pipeline_res self) kpt_result ''kpt'') (\<lambda>r1.
     bind_err (getattr ''kpt_collector'' (kpt_collector self)) (\<lambda>c.
     let w2 = collector_update E w1 kpt_result;
         state = collector_state E w2 in
     if state then
       (case collector_collate E w2 of (action_input, w3) \<Rightarrow>
        bind_err (getattr ''action_predictor'' (action_predictor self)) (\<lambda>q.
        case action_predict_kpt E w3 action_input of (action_res, w4) \<Rightarrow>
        Inl (NameError ''action'')))
     else Inr (self\<lparr>ext := w2, pipeline_res := r1,
                     trace := trace self @ [EvKpt crop_input]\<rparr>))))"

text \<open>
  The counter and the end of the total interval:
  \<^verbatim>\<open>
  if frame_id > self.warmup_frame:
      self.pipe_timer.img_num += 1
      self.pipe_timer.total_time.end()
  \<close>
\<close>

definition video_count ::
  "nat \<Rightarrow> ('w, 'a, 'f) PipePredictor \<Rightarrow> ('w, 'a, 'f) PipePredictor" where
  "video_count frame_id self =
     (if int frame_id > warmup_frame self
      then self\<lparr>pipe_timer :=
             total_time_end ((pipe_timer self)\<lparr>img_num := img_num (pipe_timer self) + 1\<rparr>)\<rparr>
      else self)"

text \<open>
  \<open>visualize_video\<close>: the lookups of the source, the in-place write, then the drawing.
  \<^verbatim>\<open>
  mot_res = result.get('mot')
  ids = mot_res['boxes'][:, 0]
  boxes = mot_res['boxes'][:, 3:]
  boxes[:, 2] = boxes[:, 2] - boxes[:, 0]
  boxes[:, 3] = boxes[:, 3] - boxes[:, 1]
  image = plot_tracking(image, boxes, ids, frame_id=frame_id)
  attr_res = result.get('attr')
  if attr_res is not None:
      boxes = mot_res['boxes'][:, 1:]
      attr_res = attr_res['output']
      image = visualize_attr(image, attr_res, boxes)
      image = np.array(image)
  return image
  \<close>
  \<open>result\<close> is the store of the predictor and \<open>mot_res\<close> the dictionary stored under
  \<open>mot\<close>; \<open>boxes\<close> is a view of the array stored there, so the two column assignments
  change the stored array: the store holds \<open>boxes_inplace\<close> of it afterwards, and that
  is what the drawing reads. The function returns the image and the store as it has
  left it.
\<close>

definition visualize_video ::
  "('w, 'a, 'f) collab \<Rightarrow> 'f \<Rightarrow> ('w, 'a, 'f) PipePredictor \<Rightarrow> nat \<Rightarrow>
   error + ('f \<times> 'a Result)" where
  "visualize_video E im self frame_id =
     bind_err
       (case Result_get (pipeline_res self) ''mot'' of
          None \<Rightarrow> Inl (TypeError ''NoneType object is not subscriptable'')
        | Some mot_res \<Rightarrow>
            bind_err (getitem mot_res ''boxes'') (\<lambda>boxes.
            Inr ((pipeline_res self)\<lparr>res_dict := (res_dict (pipeline_res self))
                   (''mot'' \<mapsto> mot_res(''boxes'' \<mapsto> boxes_inplace E boxes))\<rparr>))) (\<lambda>result.
     bind_err
       (case Result_get result ''attr'' of
          None \<Rightarrow> Inr ()
        | Some attr_res \<Rightarrow> bind_err (getitem attr_res ''output'') (\<lambda>out. Inr ())) (\<lambda>u.
     Inr (render E im result frame_id, result)))"

text \<open>
  One pass of the loop of \<open>predict_video\<close>, after a successful read of \<open>frame\<close>:
  \<^verbatim>\<open>
  (tracking stage)
  if self.with_attr or self.with_action:
      crop_input = crop_image_with_mot(frame, mot_res)
  if self.with_attr:
      (attribute stage)
  if self.with_action:
      (keypoint and action stage)
  (counter)
  frame_id += 1
  if self.multi_camera:
      self.get_valid_instance(frame, self.pipeline_res)
  if self.cfg['visual']:
      im = self.visualize_video(frame, self.pipeline_res, frame_id)
      writer.write(im)
  \<close>
  \<open>PipePredictor\<close> has no attribute \<open>get_valid_instance\<close>: the lookup raises
  AttributeError. \<open>crop_input\<close> is read only where one of the two flags holds, so it is
  computed where it is read.
\<close>

definition video_tick ::
  "('w, 'a, 'f) collab \<Rightarrow> 'f \<Rightarrow> nat \<Rightarrow> ('w, 'a, 'f) PipePredictor \<Rightarrow>
   error + ('w, 'a, 'f) PipePredictor" where
  "video_tick E frame frame_id self =
     bind_err (video_mot E frame frame_id self) (\<lambda>(mot_res, self).
     let crop_input = crop_image_with_mot E frame mot_res in
     bind_err (if is_not_None (with_attr self)
               then video_attr E crop_input frame_id self else Inr self) (\<lambda>self.
     bind_err (if is_not_None (with_action self)
               then video_action E crop_input self else Inr self) (\<lambda>self.
     let self = video_count frame_id self in
     if multi_camera self then Inl (AttributeError ''get_valid_instance'')
     else
       bind_err (cfg_getitem ''visual'' (visual (cfg self))) (\<lambda>vis.
       if vis then
         bind_err (visualize_video E frame self (frame_id + 1)) (\<lambda>(im, result).
         Inr (self\<lparr>pipeline_res := result, trace := trace self @ [EvWrite im]\<rparr>))
       else Inr self))))"

text \<open>
  The loop of \<open>predict_video\<close>. A capture is the sequence of the results of its
  \<open>read()\<close> calls: \<open>capture k\<close> is the frame of the \<open>k\<close>-th call, or \<open>None\<close> when that call
  fails. One call is made per pass and \<open>frame_id\<close> counts the passes, so the call of a
  pass is call \<open>frame_id\<close>. A capture that never fails makes the loop run forever: the
  result is then \<open>None\<close>.
  \<^verbatim>\<open>
  frame_id = 0
  while (1):
      ret, frame = capture.read()
      if not ret:
          break
      (one pass)
  writer.release()
  \<close>
\<close>

partial_function (option) video_loop ::
  "('w, 'a, 'f) collab \<Rightarrow> (nat \<Rightarrow> 'f option) \<Rightarrow> nat \<Rightarrow> ('w, 'a, 'f) PipePredictor \<Rightarrow>
   (error + ('w, 'a, 'f) PipePredictor) option" where
  "video_loop E capture frame_id self =
     (case capture frame_id of
        None \<Rightarrow> Some (Inr self)
      | Some frame \<Rightarrow>
          (case video_tick E frame frame_id self of
             Inl e \<Rightarrow> Some (Inl e)
           | Inr self' \<Rightarrow> video_loop E capture (frame_id + 1) self'))"

definition predict_video ::
  "('w, 'a, 'f) collab \<Rightarrow> ('w, 'a, 'f) PipePredictor \<Rightarrow> (nat \<Rightarrow> 'f option) \<Rightarrow>
   (error + ('w, 'a, 'f) PipePredictor) option" where
  "predict_video E self capture =
     (case video_loop E capture 0 self of
        None \<Rightarrow> None
      | Some (Inl e) \<Rightarrow> Some (Inl e)
      | Some (Inr self') \<Rightarrow> Some (Inr (self'\<lparr>trace := trace self' @ [EvRelease]\<rparr>)))"

text \<open>
  \<^verbatim>\<open>
  def run(self, input):
      if self.is_video:
          self.predict_video(input)
      else:
          self.predict_image(input)
      self.pipe_timer.info(True)
  \<close>
  \<open>info\<close> prints the timings and changes nothing. An input of the wrong shape fails at
  the first use: \<open>capture.get\<close> on a list, \<open>len\<close> of a capture, \<open>decode_image\<close> of a
  capture.
\<close>

definition run ::
  "('w, 'a, 'f) collab \<Rightarrow> ('w, 'a, 'f) PipePredictor \<Rightarrow> (nat \<Rightarrow> 'f option) pipe_input \<Rightarrow>
   (error + ('w, 'a, 'f) PipePredictor) option" where
  "run E self input =
     (if is_video self then
        (case input of
           Capture capture \<Rightarrow> predict_video E self capture
         | Images fs \<Rightarrow> Some (Inl (AttributeError ''get''))
         | Captures cs \<Rightarrow> Some (Inl (AttributeError ''get'')))
      else
        (case input of
           Images fs \<Rightarrow> Some (predict_image E self fs)
         | Capture capture \<Rightarrow> Some (Inl (TypeError ''len''))
         | Captures cs \<Rightarrow> Some (Inl (TypeError ''decode_image''))))"

section \<open>The class Pipeline\<close>

text \<open>
  A pipeline holds one predictor, or in multi-camera mode a list of them. The fields
  carry the prefix \<open>pl_\<close> because \<open>is_video\<close> and \<open>multi_camera\<close> are attributes of
  \<open>PipePredictor\<close> too.
\<close>

datatype 'p predictors = Single 'p | Multi "'p list"

record ('w, 'a, 'f) Pipeline =
  pl_multi_camera :: bool
  pl_is_video :: bool
  pl_input :: "(nat \<Rightarrow> 'f option) pipe_input"
  pl_predictor :: "('w, 'a, 'f) PipePredictor predictors"

text \<open>A list comprehension whose items may raise.\<close>

fun collect :: "(error + 'x) list \<Rightarrow> error + 'x list" where
  "collect [] = Inr []"
| "collect (m # ms) =
     (case m of Inl e \<Rightarrow> Inl e
      | Inr x \<Rightarrow> (case collect ms of Inl e \<Rightarrow> Inl e | Inr xs \<Rightarrow> Inr (x # xs)))"

text \<open>
  \<^verbatim>\<open>
  def __init__(self, cfg, image_file=None, image_dir=None, video_file=None,
               camera_id=-1, ..., output_dir='output'):
      self.multi_camera = False
      self.is_video = False
      self.input = self._parse_input(image_file, image_dir, video_file, camera_id)
      if self.multi_camera:
          self.predictor = [
              PipePredictor(cfg, is_video=True, multi_camera=True, ...)
              for i in self.input]
      else:
          self.predictor = PipePredictor(cfg, self.is_video, ...)
  \<close>
  Each predictor of the list is built by its own constructor call, so each has a
  \<open>Result\<close>, a \<open>PipeTimer\<close> and predictors of its own.
\<close>

definition Pipeline_init ::
  "(string option \<Rightarrow> string option \<Rightarrow> string + string list) \<Rightarrow> (source \<Rightarrow> nat \<Rightarrow> 'f option) \<Rightarrow>
   'w \<Rightarrow> config \<Rightarrow> string option \<Rightarrow> string option \<Rightarrow> video_arg option \<Rightarrow> camera_arg \<Rightarrow>
   string \<Rightarrow> error + ('w, 'a, 'f) Pipeline" where
  "Pipeline_init get_test_images VideoCapture w c image_file image_dir video_file camera_id out_dir =
     bind_err (parse_input get_test_images VideoCapture False False
                 image_file image_dir video_file camera_id) (\<lambda>(input, video, multi).
     if multi then
       bind_err (case input of
                   Captures cs \<Rightarrow> Inr (length cs)
                 | Images fs \<Rightarrow> Inr (length fs)
                 | Capture capture \<Rightarrow> Inl (TypeError ''object is not iterable'')) (\<lambda>n.
       bind_err (collect (replicate n (PipePredictor_init w c True True out_dir))) (\<lambda>ps.
       Inr \<lparr>pl_multi_camera = multi, pl_is_video = video, pl_input = input,
            pl_predictor = Multi ps\<rparr>))
     else
       bind_err (PipePredictor_init w c video False out_dir) (\<lambda>p.
       Inr \<lparr>pl_multi_camera = multi, pl_is_video = video, pl_input = input,
            pl_predictor = Single p\<rparr>))"

text \<open>
  \<^verbatim>\<open>
  def run(self):
      if self.multi_camera:
          multi_res = []
          for predictor, input in zip(self.predictor, self.input):
              predictor.run(input)
              res = predictor.get_result()
              multi_res.append(res)
          mtmct_process(multi_res)
      else:
          self.predictor.run(self.input)
  \<close>
  \<open>mtmct_process\<close> is neither imported nor defined in the module: the call raises
  NameError. \<open>run_streams\<close> is the loop: it returns the predictors after their runs and
  the list \<open>multi_res\<close>. The constructor pairs a list of predictors with a list of
  captures; any other pairing fails in \<open>zip\<close> or in the first \<open>run\<close>.
\<close>

fun run_streams ::
  "('w, 'a, 'f) collab \<Rightarrow> (('w, 'a, 'f) PipePredictor \<times> (nat \<Rightarrow> 'f option)) list \<Rightarrow>
   (error + (('w, 'a, 'f) PipePredictor list \<times> 'a Result list)) option" where
  "run_streams E [] = Some (Inr ([], []))"
| "run_streams E ((predictor, input) # rest) =
     (case run E predictor (Capture input) of
        None \<Rightarrow> None
      | Some (Inl e) \<Rightarrow> Some (Inl e)
      | Some (Inr p) \<Rightarrow>
          (case run_streams E rest of
             None \<Rightarrow> None
           | Some (Inl e) \<Rightarrow> Some (Inl e)
           | Some (Inr (ps, multi_res)) \<Rightarrow> Some (Inr (p # ps, get_result p # multi_res))))"

definition Pipeline_run ::
  "('w, 'a, 'f) collab \<Rightarrow> ('w, 'a, 'f) Pipeline \<Rightarrow> (error + ('w, 'a, 'f) Pipeline) option" where
  "Pipeline_run E self =
     (if pl_multi_camera self then
        (case (pl_predictor self, pl_input self) of
           (Multi ps, Captures cs) \<Rightarrow>
             (case run_streams E (zip ps cs) of
                None \<Rightarrow> None
              | Some (Inl e) \<Rightarrow> Some (Inl e)
              | Some (Inr (ps', multi_res)) \<Rightarrow> Some (Inl (NameError ''mtmct_process'')))
         | other \<Rightarrow> Some (Inl (TypeError ''zip'')))
      else
        (case pl_predictor self of
           Single p \<Rightarrow>
             (case run E p (pl_input self) of
                None \<Rightarrow> None
              | Some (Inl e) \<Rightarrow> Some (Inl e)
              | Some (Inr p') \<Rightarrow> Some (Inr (self\<lparr>pl_predictor := Single p'\<rparr>)))
         | Multi ps \<Rightarrow> Some (Inl (AttributeError ''run''))))"

section \<open>Concrete collaborators and configurations\<close>

text \<open>
  Collaborators for running the model on concrete inputs: images are named by strings,
  result items are numbers, the state of the predictors counts their calls. The
  detector finds no box, so there are no crops; the keypoint buffer always reports a
  full window. The in-place assignment of the renderer adds 100 to an array, so that it
  shows in the store.
\<close>

definition demo_collab :: "(nat, nat, string) collab" where
  "demo_collab = \<lparr>
     decode_image = (\<lambda>f. f),
     det_predict = (\<lambda>w batch. ([''boxes'' \<mapsto> PyList [], ''boxes_num'' \<mapsto> PyList (map (\<lambda>x. 0) batch)], Suc w)),
     crop_image_with_det = (\<lambda>batch det_res. []),
     attr_predict = (\<lambda>w crops. ([''output'' \<mapsto> PyList []], Suc w)),
     mot_predict = (\<lambda>w frames. (0, Suc w)),
     parse_mot_res = (\<lambda>res. [''boxes'' \<mapsto> PyObj res]),
     crop_image_with_mot = (\<lambda>frame mot_res. []),
     kpt_predict = (\<lambda>w crops. (Map.empty, Suc w)),
     collector_update = (\<lambda>w kpt_result. w),
     collector_state = (\<lambda>w. True),
     collector_collate = (\<lambda>w. (0, w)),
     action_predict_kpt = (\<lambda>w action_input. ([''action'' \<mapsto> PyObj 1], Suc w)),
     render = (\<lambda>im result i. im),
     boxes_inplace = (\<lambda>boxes. case boxes of PyObj b \<Rightarrow> PyObj (b + 100) | PyList bs \<Rightarrow> PyList bs)\<rparr>"

text \<open>
  A detector of a mask model: its first call finds an object and returns \<open>masks\<close> with
  the boxes, its later calls find nothing and return the boxes only.
\<close>

definition mask_collab :: "(nat, nat, string) collab" where
  "mask_collab = demo_collab\<lparr>
     det_predict := (\<lambda>w batch.
       if w = 0 then ([''boxes'' \<mapsto> PyObj 1, ''boxes_num'' \<mapsto> PyObj 1, ''masks'' \<mapsto> PyObj 7], Suc w)
       else ([''boxes'' \<mapsto> PyObj 0, ''boxes_num'' \<mapsto> PyObj 0], Suc w))\<rparr>"

definition demo_section :: "int \<Rightarrow> stage_cfg" where
  "demo_section bs = \<lparr>model_dir = ''model'', batch_size = bs, tracker_config = ''tracker.yml''\<rparr>"

text \<open>Image mode, detection and attributes, batches of \<open>bs\<close>, no visual output.\<close>

definition image_cfg :: "int \<Rightarrow> config" where
  "image_cfg bs = \<lparr>DET = Some (demo_section bs), MOT = None, ATTR = Some (demo_section 1),
     ACTION = None, visual = Some False, crop_thresh = Some ''0.5''\<rparr>"

text \<open>Video mode, tracking and attributes, with visual output.\<close>

definition video_cfg :: config where
  "video_cfg = \<lparr>DET = None, MOT = Some (demo_section 1), ATTR = Some (demo_section 1),
     ACTION = None, visual = Some True, crop_thresh = Some ''0.5''\<rparr>"

text \<open>A capture of the frames \<open>fs\<close>: every read after them fails.\<close>

definition capture_of :: "'f list \<Rightarrow> nat \<Rightarrow> 'f option" where
  "capture_of fs k = (if k < length fs then Some (fs ! k) else None)"

section \<open>Observations on a run\<close>

text \<open>The batches handed to the detector and the frames handed to the tracker, in order.\<close>

fun det_batches :: "('a, 'f) event list \<Rightarrow> 'f list list" where
  "det_batches [] = []"
| "det_batches (EvDet batch # es) = batch # det_batches es"
| "det_batches (e # es) = det_batches es"

fun mot_frames :: "('a, 'f) event list \<Rightarrow> 'f list" where
  "mot_frames [] = []"
| "mot_frames (EvMot frame # es) = frame # mot_frames es"
| "mot_frames (e # es) = mot_frames es"

text \<open>The crop lists handed to the attribute predictor.\<close>

fun attr_calls :: "('a, 'f) event list \<Rightarrow> 'f list list" where
  "attr_calls [] = []"
| "attr_calls (EvAttr crops # es) = crops # attr_calls es"
| "attr_calls (e # es) = attr_calls es"

text \<open>
  Two states of a predictor have the same setup when they agree on every attribute
  that only the constructor assigns, and on the key sets of the result store and of the
  timer table.
\<close>

definition same_setup :: "('w, 'a, 'f) PipePredictor \<Rightarrow> ('w, 'a, 'f) PipePredictor \<Rightarrow> bool" where
  "same_setup p q =
     (with_attr q = with_attr p \<and> with_action q = with_action p
      \<and> is_video q = is_video p \<and> multi_camera q = multi_camera p
      \<and> cfg q = cfg p \<and> output_dir q = output_dir p \<and> warmup_frame q = warmup_frame p
      \<and> det_predictor q = det_predictor p \<and> attr_predictor q = attr_predictor p
      \<and> mot_predictor q = mot_predictor p \<and> kpt_predictor q = kpt_predictor p
      \<and> kpt_collector q = kpt_collector p \<and> action_predictor q = action_predictor p
      \<and> dom (res_dict (pipeline_res q)) = dom (res_dict (pipeline_res p))
      \<and> dom (module_time (pipe_timer q)) = dom (module_time (pipe_timer p)))"

text \<open>
  What the renderer of video mode reads: the tracker's parsed result has \<open>boxes\<close> and
  the attribute predictor's result has \<open>output\<close>.
\<close>

definition mot_has_boxes :: "('w, 'a, 'f) collab \<Rightarrow> bool" where
  "mot_has_boxes E = (\<forall>w frames. is_not_None (parse_mot_res E (fst (mot_predict E w frames)) ''boxes''))"

definition attr_has_output :: "('w, 'a, 'f) collab \<Rightarrow> bool" where
  "attr_has_output E = (\<forall>w crops. is_not_None (fst (attr_predict E w crops) ''output''))"

text \<open>
  A single-camera video predictor that can run a pass without raising: the action
  stage is off, the tracker is built, the attribute predictor is built where the
  attribute stage is on, the store and the timer table have the keys \<open>mot\<close> and
  \<open>attr\<close>, and \<open>visual\<close> is configured; where it is on, the attribute stage is on and
  the collaborators return what the renderer reads.
\<close>

definition video_ready :: "('w, 'a, 'f) collab \<Rightarrow> ('w, 'a, 'f) PipePredictor \<Rightarrow> bool" where
  "video_ready E p =
     (multi_camera p = False \<and> with_action p = None
      \<and> is_not_None (mot_predictor p)
      \<and> (if is_not_None (with_attr p) then is_not_None (attr_predictor p) else True)
      \<and> is_not_None (res_dict (pipeline_res p) ''mot'')
      \<and> is_not_None (res_dict (pipeline_res p) ''attr'')
      \<and> is_not_None (module_time (pipe_timer p) ''mot'')
      \<and> is_not_None (module_time (pipe_timer p) ''attr'')
      \<and> (case visual (cfg p) of
            None \<Rightarrow> False
          | Some v \<Rightarrow> if v then is_not_None (with_attr p) \<and> mot_has_boxes E \<and> attr_has_output E
                      else True))"

text \<open>
  The same for a predictor of image mode: the detector is built, the store and the
  timer table have the keys \<open>det\<close> and \<open>attr\<close>, and \<open>visual\<close> is configured; where it is
  on, the threshold is configured, the attribute stage is on and the detector's result
  has \<open>boxes\<close> and \<open>boxes_num\<close>.
\<close>

definition det_has_boxes :: "('w, 'a, 'f) collab \<Rightarrow> bool" where
  "det_has_boxes E = (\<forall>w batch. is_not_None (fst (det_predict E w batch) ''boxes'')
                              \<and> is_not_None (fst (det_predict E w batch) ''boxes_num''))"

definition image_ready :: "('w, 'a, 'f) collab \<Rightarrow> ('w, 'a, 'f) PipePredictor \<Rightarrow> bool" where
  "image_ready E p =
     (is_not_None (det_predictor p)
      \<and> is_not_None (res_dict (pipeline_res p) ''det'')
      \<and> is_not_None (res_dict (pipeline_res p) ''attr'')
      \<and> is_not_None (module_time (pipe_timer p) ''det'')
      \<and> is_not_None (module_time (pipe_timer p) ''attr'')
      \<and> (case visual (cfg p) of
            None \<Rightarrow> False
          | Some v \<Rightarrow> if v then is_not_None (with_attr p) \<and> is_not_None (crop_thresh (cfg p))
                                \<and> det_has_boxes E
                      else True))"

section \<open>Basic facts\<close>

lemma bind_err_Inl [simp]: "bind_err (Inl e) f = Inl e"
  by (simp add: bind_err_def)

lemma bind_err_Inr [simp]: "bind_err (Inr x) f = f x"
  by (simp add: bind_err_def)

lemma bind_err_eq_Inr: "(bind_err m f = Inr y) = (\<exists>x. m = Inr x \<and> f x = Inr y)"
  by (cases m) simp_all

lemma getitem_Some [simp]: "d k = Some v \<Longrightarrow> getitem d k = Inr v"
  by (simp add: getitem_def)

lemma getitem_None [simp]: "d k = None \<Longrightarrow> getitem d k = Inl (KeyError k)"
  by (simp add: getitem_def)

lemma getitem_eq_Inr: "(getitem d k = Inr v) = (d k = Some v)"
  by (simp add: getitem_def split: option.splits)

lemma getattr_Some [simp]: "getattr n (Some x) = Inr x"
  by (simp add: getattr_def)

lemma getattr_None [simp]: "getattr n None = Inl (AttributeError n)"
  by (simp add: getattr_def)

lemma getattr_eq_Inr: "(getattr n v = Inr x) = (v = Some x)"
  by (simp add: getattr_def split: option.splits)

lemma cfg_getitem_Some [simp]: "cfg_getitem n (Some x) = Inr x"
  by (simp add: cfg_getitem_def)

lemma cfg_getitem_None [simp]: "cfg_getitem n None = Inl (KeyError n)"
  by (simp add: cfg_getitem_def)

lemma cfg_getitem_eq_Inr: "(cfg_getitem n v = Inr x) = (v = Some x)"
  by (simp add: cfg_getitem_def split: option.splits)

lemma is_not_None_simps [simp]: "is_not_None None = False" "is_not_None (Some x) = True"
  by (simp_all add: is_not_None_def)

lemma is_not_None_iff: "is_not_None v = (\<exists>x. v = Some x)"
  by (cases v) simp_all

text \<open>A property kept by every pass of a loop is kept by the loop.\<close>

lemma for_each_invariant:
  assumes "for_each body xs s = Inr s'" and "P s"
    and "\<And>x t t'. x \<in> set xs \<Longrightarrow> P t \<Longrightarrow> body x t = Inr t' \<Longrightarrow> P t'"
  shows "P s'"
  using assms
proof (induction xs arbitrary: s)
  case Nil
  then show ?case by simp
next
  case (Cons x xs)
  from Cons.prems(1) obtain s1 where s1: "body x s = Inr s1" and rest: "for_each body xs s1 = Inr s'"
    by (auto split: sum.splits)
  have P1: "P s1" using Cons.prems(3) [of x s s1] Cons.prems(2) s1 by simp
  show ?case
  proof (rule Cons.IH [OF rest P1])
    fix y t t' assume "y \<in> set xs" "P t" "body y t = Inr t'"
    then show "P t'" using Cons.prems(3) [of y t t'] by simp
  qed
qed

lemma for_each_Cons_Inr:
  "for_each body (x # xs) s = Inr s' \<Longrightarrow> \<exists>s1. body x s = Inr s1 \<and> for_each body xs s1 = Inr s'"
  by (auto split: sum.splits)

lemma for_each_append:
  "for_each body (xs @ ys) s = bind_err (for_each body xs s) (for_each body ys)"
  by (induction xs arbitrary: s) (auto split: sum.splits)

section \<open>The result store\<close>

lemma Result_update_dom:
  "Result_update r res name = Inr r' \<Longrightarrow> dom (res_dict r') = dom (res_dict r)"
  by (auto simp: Result_update_def split: option.splits if_splits)

lemma Result_updates_dom:
  "Result_updates r us = Inr r' \<Longrightarrow> dom (res_dict r') = dom (res_dict r)"
  unfolding Result_updates_def
proof (induction us arbitrary: r)
  case Nil
  then show ?case by simp
next
  case (Cons u us)
  obtain res name where u: "u = (res, name)" by (cases u)
  from Cons.prems u obtain r1 where
    r1: "Result_update r res name = Inr r1" and
    rest: "for_each (\<lambda>(res, name) r. Result_update r res name) us r1 = Inr r'"
    by (auto split: sum.splits)
  from Cons.IH [OF rest] Result_update_dom [OF r1] show ?case by simp
qed

lemma dom_Result_init: "dom (res_dict Result_init) = set stage_names"
  by (auto simp: Result_init_def stage_names_def split: if_splits)

lemma Result_update_fails_iff:
  "(\<exists>e. Result_update r res name = Inl e) = (name \<notin> dom (res_dict r))"
  by (auto simp: Result_update_def split: option.splits)

lemma Result_get_eq: "Result_get r name = res_dict r name"
  by (simp add: Result_get_def split: option.splits)

section \<open>The timer\<close>

lemma module_time_start_eq_Inr:
  "(module_time_start name t = Inr t') =
     (\<exists>ts. module_time t name = Some ts
          \<and> t' = t\<lparr>module_time := (module_time t)(name \<mapsto> Times_start ts)\<rparr>)"
  by (auto simp: module_time_start_def bind_err_eq_Inr getitem_eq_Inr)

lemma module_time_end_eq_Inr:
  "(module_time_end name t = Inr t') =
     (\<exists>ts. module_time t name = Some ts
          \<and> t' = t\<lparr>module_time := (module_time t)(name \<mapsto> Times_end ts)\<rparr>)"
  by (auto simp: module_time_end_def bind_err_eq_Inr getitem_eq_Inr)

lemma module_time_start_dom:
  assumes "module_time_start name t = Inr t'"
  shows "dom (module_time t') = dom (module_time t)"
proof -
  from assms obtain ts where a: "module_time t name = Some ts"
    and b: "t' = t\<lparr>module_time := (module_time t)(name \<mapsto> Times_start ts)\<rparr>"
    by (auto simp: module_time_start_eq_Inr)
  from a have "name \<in> dom (module_time t)" by (rule domI)
  with b show ?thesis by (simp add: insert_absorb)
qed

lemma module_time_end_dom:
  assumes "module_time_end name t = Inr t'"
  shows "dom (module_time t') = dom (module_time t)"
proof -
  from assms obtain ts where a: "module_time t name = Some ts"
    and b: "t' = t\<lparr>module_time := (module_time t)(name \<mapsto> Times_end ts)\<rparr>"
    by (auto simp: module_time_end_eq_Inr)
  from a have "name \<in> dom (module_time t)" by (rule domI)
  with b show ?thesis by (simp add: insert_absorb)
qed

lemma total_time_start_module [simp]: "module_time (total_time_start t) = module_time t"
  by (simp add: total_time_start_def)

lemma total_time_end_module [simp]: "module_time (total_time_end t) = module_time t"
  by (simp add: total_time_end_def)

section \<open>What a pass leaves unchanged\<close>

lemma same_setup_refl [simp]: "same_setup p p"
  by (simp add: same_setup_def)

lemma same_setup_trans: "same_setup p q \<Longrightarrow> same_setup q r \<Longrightarrow> same_setup p r"
  by (simp add: same_setup_def)

lemma same_setup_trace [simp]: "same_setup p (q\<lparr>trace := tr\<rparr>) = same_setup p q"
  by (simp add: same_setup_def)

lemma timed_start_dom:
  assumes "(if b then module_time_start name (total_time_start t) else Inr t) = Inr t'"
  shows "dom (module_time t') = dom (module_time t)"
proof (cases b)
  case True
  with assms have "module_time_start name (total_time_start t) = Inr t'" by simp
  from module_time_start_dom [OF this] show ?thesis by simp
next
  case False
  with assms show ?thesis by simp
qed

lemma timed_start_dom':
  assumes "(if b then module_time_start name t else Inr t) = Inr t'"
  shows "dom (module_time t') = dom (module_time t)"
proof (cases b)
  case True
  with assms have "module_time_start name t = Inr t'" by simp
  from module_time_start_dom [OF this] show ?thesis by simp
next
  case False
  with assms show ?thesis by simp
qed

lemma timed_end_dom:
  assumes "(if b then module_time_end name t else Inr t) = Inr t'"
  shows "dom (module_time t') = dom (module_time t)"
proof (cases b)
  case True
  with assms have "module_time_end name t = Inr t'" by simp
  from module_time_end_dom [OF this] show ?thesis by simp
next
  case False
  with assms show ?thesis by simp
qed

lemma image_det_setup:
  assumes "image_det E batch_input i p = Inr (det_res, q)"
  shows "same_setup p q"
proof -
  from assms obtain t1 t2 r1 where
    t1: "(if int i > warmup_frame p
          then module_time_start ''det'' (total_time_start (pipe_timer p))
          else Inr (pipe_timer p)) = Inr t1"
    and t2: "(if int i > warmup_frame p then module_time_end ''det'' t1 else Inr t1) = Inr t2"
    and r1: "Result_update (pipeline_res p) (fst (det_predict E (ext p) batch_input)) ''det'' = Inr r1"
    and q: "q = p\<lparr>pipe_timer := t2, ext := snd (det_predict E (ext p) batch_input),
                  pipeline_res := r1, trace := trace p @ [EvDet batch_input]\<rparr>"
    by (auto simp: image_det_def bind_err_eq_Inr case_prod_beta)
  from timed_start_dom [OF t1] timed_end_dom [OF t2] Result_update_dom [OF r1] q
  show ?thesis by (simp add: same_setup_def)
qed

lemma image_attr_setup:
  assumes "image_attr E batch_input det_res i p = Inr q"
  shows "same_setup p q"
proof -
  from assms obtain t1 t2 r1 w1 l tr where
    t1: "(if int i > warmup_frame p then module_time_start ''attr'' (pipe_timer p)
          else Inr (pipe_timer p)) = Inr t1"
    and t2: "(if int i > warmup_frame p then module_time_end ''attr'' t1 else Inr t1) = Inr t2"
    and r1: "Result_update (pipeline_res p) [''output'' \<mapsto> PyList l] ''attr'' = Inr r1"
    and q: "q = p\<lparr>pipe_timer := t2, ext := w1, pipeline_res := r1, trace := tr\<rparr>"
    by (auto simp: image_attr_def bind_err_eq_Inr Let_def case_prod_beta)
  from timed_start_dom' [OF t1] timed_end_dom [OF t2] Result_update_dom [OF r1] q
  show ?thesis by (simp add: same_setup_def)
qed

lemma image_count_setup: "same_setup p (image_count batch_input i p)"
  by (simp add: same_setup_def image_count_def Let_def)

lemma visualize_image_setup: "visualize_image E im_files images p = Inr q \<Longrightarrow> same_setup p q"
  by (auto simp: visualize_image_def bind_err_eq_Inr)

lemma image_tick_setup:
  assumes "image_tick E input i p = Inr q"
  shows "same_setup p q"
proof -
  from assms obtain det where det: "det_predictor p = Some det"
    by (cases "det_predictor p") (simp_all add: image_tick_def)
  let ?bf = "batch_file input (batch_size det) i"
  let ?bi = "map (decode_image E) ?bf"
  from assms det obtain det_res p1 p2 where
    d: "image_det E ?bi i p = Inr (det_res, p1)"
    and a: "(if is_not_None (with_attr p1) then image_attr E ?bi det_res i p1 else Inr p1) = Inr p2"
    and v: "bind_err (cfg_getitem ''visual'' (visual (cfg (image_count ?bi i p2)))) (\<lambda>vis.
            if vis then visualize_image E ?bf ?bi (image_count ?bi i p2)
            else Inr (image_count ?bi i p2)) = Inr q"
    by (auto simp: image_tick_def Let_def bind_err_eq_Inr)
  have s1: "same_setup p p1" using d by (rule image_det_setup)
  have s2: "same_setup p1 p2" using a by (auto split: if_splits dest: image_attr_setup)
  have s3: "same_setup p2 (image_count ?bi i p2)" by (rule image_count_setup)
  have s4: "same_setup (image_count ?bi i p2) q"
    using v by (auto simp: bind_err_eq_Inr split: if_splits dest: visualize_image_setup)
  from s1 s2 s3 s4 show ?thesis by (blast intro: same_setup_trans)
qed

lemma predict_image_setup:
  assumes "predict_image E p input = Inr q"
  shows "same_setup p q"
proof -
  from assms obtain xs where loop: "for_each (image_tick E input) xs p = Inr q"
    by (auto simp: predict_image_def bind_err_eq_Inr split: if_splits)
  show ?thesis
    by (rule for_each_invariant [OF loop, where P = "same_setup p"])
       (auto dest: image_tick_setup same_setup_trans)
qed

lemma video_mot_setup:
  assumes "video_mot E frame frame_id p = Inr (mot_res, q)"
  shows "same_setup p q"
proof -
  from assms obtain t1 t2 r1 where
    t1: "(if int frame_id > warmup_frame p
          then module_time_start ''mot'' (total_time_start (pipe_timer p))
          else Inr (pipe_timer p)) = Inr t1"
    and t2: "(if int frame_id > warmup_frame p then module_time_end ''mot'' t1 else Inr t1) = Inr t2"
    and r1: "Result_update (pipeline_res p) mot_res ''mot'' = Inr r1"
    and q: "q = p\<lparr>pipe_timer := t2, ext := snd (mot_predict E (ext p) [frame]),
                  pipeline_res := r1, trace := trace p @ [EvMot frame]\<rparr>"
    by (auto simp: video_mot_def bind_err_eq_Inr Let_def case_prod_beta)
  from timed_start_dom [OF t1] timed_end_dom [OF t2] Result_update_dom [OF r1] q
  show ?thesis by (simp add: same_setup_def)
qed

lemma video_attr_setup:
  assumes "video_attr E crop_input frame_id p = Inr q"
  shows "same_setup p q"
proof -
  from assms obtain t1 t2 r1 where
    t1: "(if int frame_id > warmup_frame p then module_time_start ''attr'' (pipe_timer p)
          else Inr (pipe_timer p)) = Inr t1"
    and t2: "(if int frame_id > warmup_frame p then module_time_end ''attr'' t1 else Inr t1) = Inr t2"
    and r1: "Result_update (pipeline_res p) (fst (attr_predict E (ext p) crop_input)) ''attr'' = Inr r1"
    and q: "q = p\<lparr>pipe_timer := t2, ext := snd (attr_predict E (ext p) crop_input),
                  pipeline_res := r1, trace := trace p @ [EvAttr crop_input]\<rparr>"
    by (auto simp: video_attr_def bind_err_eq_Inr case_prod_beta)
  from timed_start_dom' [OF t1] timed_end_dom [OF t2] Result_update_dom [OF r1] q
  show ?thesis by (simp add: same_setup_def)
qed

lemma video_action_setup:
  assumes "video_action E crop_input p = Inr q"
  shows "same_setup p q"
proof -
  from assms obtain r1 w2 where
    r1: "Result_update (pipeline_res p) (fst (kpt_predict E (ext p) crop_input)) ''kpt'' = Inr r1"
    and q: "q = p\<lparr>ext := w2, pipeline_res := r1, trace := trace p @ [EvKpt crop_input]\<rparr>"
    by (auto simp: video_action_def bind_err_eq_Inr Let_def case_prod_beta split: if_splits)
  from Result_update_dom [OF r1] q show ?thesis by (simp add: same_setup_def)
qed

lemma video_count_setup: "same_setup p (video_count frame_id p)"
  by (simp add: same_setup_def video_count_def)

lemma visualize_video_store:
  assumes "visualize_video E im p k = Inr (im', r)"
  shows "\<exists>mot_res boxes. res_dict (pipeline_res p) ''mot'' = Some mot_res
           \<and> mot_res ''boxes'' = Some boxes
           \<and> r = (pipeline_res p)\<lparr>res_dict := (res_dict (pipeline_res p))
                   (''mot'' \<mapsto> mot_res(''boxes'' \<mapsto> boxes_inplace E boxes))\<rparr>
           \<and> im' = render E im r k"
  using assms
  by (auto simp: visualize_video_def bind_err_eq_Inr Result_get_eq getitem_eq_Inr
           split: option.splits)

lemma visualize_video_dom:
  assumes "visualize_video E im p k = Inr (im', r)"
  shows "dom (res_dict r) = dom (res_dict (pipeline_res p))"
proof -
  from visualize_video_store [OF assms] obtain mot_res boxes where
    m: "res_dict (pipeline_res p) ''mot'' = Some mot_res"
    and r: "r = (pipeline_res p)\<lparr>res_dict := (res_dict (pipeline_res p))
                   (''mot'' \<mapsto> mot_res(''boxes'' \<mapsto> boxes_inplace E boxes))\<rparr>"
    by blast
  from m have "''mot'' \<in> dom (res_dict (pipeline_res p))" by (rule domI)
  then have "insert ''mot'' (dom (res_dict (pipeline_res p))) = dom (res_dict (pipeline_res p))"
    by (rule insert_absorb)
  with r show ?thesis by simp
qed

lemma video_tick_setup:
  assumes "video_tick E frame frame_id p = Inr q"
  shows "same_setup p q"
proof -
  from assms obtain mot_res p1 p2 p3 where
    m: "video_mot E frame frame_id p = Inr (mot_res, p1)"
    and a: "(if is_not_None (with_attr p1)
             then video_attr E (crop_image_with_mot E frame mot_res) frame_id p1
             else Inr p1) = Inr p2"
    and k: "(if is_not_None (with_action p2)
             then video_action E (crop_image_with_mot E frame mot_res) p2
             else Inr p2) = Inr p3"
    and q: "(if multi_camera (video_count frame_id p3)
       then Inl (AttributeError ''get_valid_instance'')
       else
         bind_err (cfg_getitem ''visual'' (visual (cfg (video_count frame_id p3)))) (\<lambda>vis.
         if vis then
           bind_err (visualize_video E frame (video_count frame_id p3) (frame_id + 1))
             (\<lambda>(im, result).
           Inr ((video_count frame_id p3)\<lparr>pipeline_res := result,
                  trace := trace (video_count frame_id p3) @ [EvWrite im]\<rparr>))
         else Inr (video_count frame_id p3))) = Inr q"
    by (auto simp: video_tick_def Let_def bind_err_eq_Inr)
  have s1: "same_setup p p1" using m by (rule video_mot_setup)
  have s2: "same_setup p1 p2" using a by (auto split: if_splits dest: video_attr_setup)
  have s3: "same_setup p2 p3" using k by (auto split: if_splits dest: video_action_setup)
  have s4: "same_setup p3 (video_count frame_id p3)" by (rule video_count_setup)
  from q have "q = video_count frame_id p3
      \<or> (\<exists>im r. visualize_video E frame (video_count frame_id p3) (frame_id + 1) = Inr (im, r)
            \<and> q = (video_count frame_id p3)\<lparr>pipeline_res := r,
                     trace := trace (video_count frame_id p3) @ [EvWrite im]\<rparr>)"
    by (auto simp: bind_err_eq_Inr split: if_splits)
  then have s5: "same_setup (video_count frame_id p3) q"
  proof
    assume "q = video_count frame_id p3"
    then show ?thesis by (simp add: same_setup_refl)
  next
    assume "\<exists>im r. visualize_video E frame (video_count frame_id p3) (frame_id + 1) = Inr (im, r)
            \<and> q = (video_count frame_id p3)\<lparr>pipeline_res := r,
                     trace := trace (video_count frame_id p3) @ [EvWrite im]\<rparr>"
    then obtain im r where
      v: "visualize_video E frame (video_count frame_id p3) (frame_id + 1) = Inr (im, r)"
      and q': "q = (video_count frame_id p3)\<lparr>pipeline_res := r,
                     trace := trace (video_count frame_id p3) @ [EvWrite im]\<rparr>"
      by blast
    from visualize_video_dom [OF v] q' show ?thesis by (simp add: same_setup_def)
  qed
  from s1 s2 s3 s4 s5 show ?thesis by (blast intro: same_setup_trans)
qed

lemma video_loop_setup_all:
  assumes "video_loop E0 capture0 k0 p0 = Some r0"
  shows "\<forall>q. r0 = Inr q \<longrightarrow> same_setup p0 q"
proof (rule video_loop.raw_induct
    [where P = "\<lambda>E capture frame_id p r. \<forall>q. r = Inr q \<longrightarrow> same_setup p q", OF _ assms])
  fix loop :: "('a, 'b, 'c) collab \<Rightarrow> (nat \<Rightarrow> 'c option) \<Rightarrow> nat \<Rightarrow> ('a, 'b, 'c) PipePredictor
                \<Rightarrow> (error + ('a, 'b, 'c) PipePredictor) option"
    and E capture frame_id p r
  assume IH: "\<And>E capture frame_id p r. loop E capture frame_id p = Some r
                \<Longrightarrow> \<forall>q. r = Inr q \<longrightarrow> same_setup p q"
    and body: "(case capture frame_id of
                  None \<Rightarrow> Some (Inr p)
                | Some frame \<Rightarrow>
                    (case video_tick E frame frame_id p of
                       Inl e \<Rightarrow> Some (Inl e)
                     | Inr self' \<Rightarrow> loop E capture (frame_id + 1) self')) = Some r"
  show "\<forall>q. r = Inr q \<longrightarrow> same_setup p q"
  proof (cases "capture frame_id")
    case None
    with body show ?thesis by auto
  next
    case (Some frame)
    show ?thesis
    proof (cases "video_tick E frame frame_id p")
      case (Inl e)
      with body Some show ?thesis by auto
    next
      case (Inr p1)
      with body Some have l: "loop E capture (frame_id + 1) p1 = Some r" by simp
      from IH [OF l] video_tick_setup [OF Inr] show ?thesis
        by (blast intro: same_setup_trans)
    qed
  qed
qed

lemma video_loop_setup:
  "video_loop E capture frame_id p = Some (Inr q) \<Longrightarrow> same_setup p q"
  using video_loop_setup_all by blast

lemma predict_video_setup:
  assumes "predict_video E p capture = Some (Inr q)"
  shows "same_setup p q"
proof -
  from assms obtain q1 where l: "video_loop E capture 0 p = Some (Inr q1)"
    and q: "q = q1\<lparr>trace := trace q1 @ [EvRelease]\<rparr>"
    by (auto simp: predict_video_def split: option.splits sum.splits)
  from video_loop_setup [OF l] q show ?thesis by simp
qed

lemma run_setup:
  assumes "run E p input = Some (Inr q)"
  shows "same_setup p q"
  using assms
  by (auto simp: run_def split: if_splits pipe_input.splits
           dest: predict_video_setup predict_image_setup)

section \<open>The video loop\<close>

lemma mot_frames_append: "mot_frames (xs @ ys) = mot_frames xs @ mot_frames ys"
  by (induction xs rule: mot_frames.induct) simp_all

lemma det_batches_append: "det_batches (xs @ ys) = det_batches xs @ det_batches ys"
  by (induction xs rule: det_batches.induct) simp_all

lemma attr_calls_append: "attr_calls (xs @ ys) = attr_calls xs @ attr_calls ys"
  by (induction xs rule: attr_calls.induct) simp_all

lemma PipePredictor_init_fields:
  assumes "PipePredictor_init w c video multi out_dir = Inr p"
  shows "with_attr p = ATTR c \<and> with_action p = ACTION c \<and> is_video p = video
       \<and> multi_camera p = multi \<and> cfg p = c \<and> output_dir p = out_dir \<and> warmup_frame p = 1
       \<and> pipeline_res p = Result_init \<and> pipe_timer p = PipeTimer_init
       \<and> ext p = w \<and> trace p = [] \<and> attr_predictor p = ATTR c
       \<and> (if video then mot_predictor p = MOT c \<and> is_not_None (MOT c) \<and> ACTION c = None
           else det_predictor p = DET c \<and> is_not_None (DET c))"
  using assms
  by (cases "ATTR c"; cases "ACTION c"; cases "MOT c"; cases "DET c"; cases video)
     (auto simp: PipePredictor_init_def Let_def)

text \<open>The loop returns whenever some read fails, whatever the passes do.\<close>

lemma video_loop_terminates:
  "capture n = None \<Longrightarrow> frame_id \<le> n \<Longrightarrow> \<exists>r. video_loop E capture frame_id p = Some r"
proof (induction "n - frame_id" arbitrary: frame_id p)
  case 0
  then have "capture frame_id = None" by simp
  then show ?case by (subst video_loop.simps) simp
next
  case (Suc d)
  show ?case
  proof (cases "capture frame_id")
    case None
    then show ?thesis by (subst video_loop.simps) simp
  next
    case (Some frame)
    with Suc.prems have lt: "frame_id < n" by (cases "frame_id = n") auto
    show ?thesis
    proof (cases "video_tick E frame frame_id p")
      case (Inl e)
      with Some show ?thesis by (subst video_loop.simps) simp
    next
      case (Inr q)
      from Suc.hyps(2) lt have d: "d = n - (frame_id + 1)" by simp
      from Suc.hyps(1) [OF d Suc.prems(1), of q] lt
      obtain r where "video_loop E capture (frame_id + 1) q = Some r" by auto
      with Some Inr show ?thesis by (subst video_loop.simps) simp
    qed
  qed
qed

lemma is_not_None_dom: "dom m' = dom m \<Longrightarrow> is_not_None (m' k) = is_not_None (m k)"
  by (auto simp: is_not_None_iff dom_def set_eq_iff)

lemma video_ready_same_setup:
  assumes "video_ready E p" and "same_setup p q"
  shows "video_ready E q"
proof -
  from assms(2) have d: "dom (res_dict (pipeline_res q)) = dom (res_dict (pipeline_res p))"
    and t: "dom (module_time (pipe_timer q)) = dom (module_time (pipe_timer p))"
    and f: "multi_camera q = multi_camera p" "with_action q = with_action p"
      "mot_predictor q = mot_predictor p" "with_attr q = with_attr p"
      "attr_predictor q = attr_predictor p" "cfg q = cfg p"
    by (simp_all add: same_setup_def)
  show ?thesis
    using assms(1)
    unfolding video_ready_def f is_not_None_dom [OF d] is_not_None_dom [OF t] .
qed

text \<open>The stages of a pass succeed on a ready predictor.\<close>

lemma timed_start_ok:
  assumes "is_not_None (module_time t name)"
  shows "\<exists>t'. (if b then module_time_start name t else Inr t) = Inr t'
           \<and> dom (module_time t') = dom (module_time t)"
proof (cases b)
  case True
  from assms obtain ts where ts: "module_time t name = Some ts"
    unfolding is_not_None_iff by blast
  have s: "module_time_start name t
           = Inr (t\<lparr>module_time := (module_time t)(name \<mapsto> Times_start ts)\<rparr>)"
    using ts by (simp add: module_time_start_def)
  from module_time_start_dom [OF s] s True show ?thesis by simp
next
  case False
  then show ?thesis by simp
qed

lemma timed_end_ok:
  assumes "is_not_None (module_time t name)"
  shows "\<exists>t'. (if b then module_time_end name t else Inr t) = Inr t'
           \<and> dom (module_time t') = dom (module_time t)"
proof (cases b)
  case True
  from assms obtain ts where ts: "module_time t name = Some ts"
    unfolding is_not_None_iff by blast
  have s: "module_time_end name t
           = Inr (t\<lparr>module_time := (module_time t)(name \<mapsto> Times_end ts)\<rparr>)"
    using ts by (simp add: module_time_end_def)
  from module_time_end_dom [OF s] s True show ?thesis by simp
next
  case False
  then show ?thesis by simp
qed

lemma Result_update_ok:
  assumes "is_not_None (res_dict r name)"
  shows "\<exists>r'. Result_update r res name = Inr r'"
proof -
  from assms obtain d where "res_dict r name = Some d" unfolding is_not_None_iff by blast
  then show ?thesis by (simp add: Result_update_def)
qed

lemma video_mot_ok:
  assumes "is_not_None (mot_predictor p)" "is_not_None (res_dict (pipeline_res p) ''mot'')"
    "is_not_None (module_time (pipe_timer p) ''mot'')"
  shows "\<exists>q. video_mot E frame frame_id p
             = Inr (parse_mot_res E (fst (mot_predict E (ext p) [frame])), q)"
proof -
  let ?b = "int frame_id > warmup_frame p"
  from assms(3) have "is_not_None (module_time (total_time_start (pipe_timer p)) ''mot'')" by simp
  from timed_start_ok [OF this, of ?b] obtain t0 where
    t0: "(if ?b then module_time_start ''mot'' (total_time_start (pipe_timer p))
          else Inr (total_time_start (pipe_timer p))) = Inr t0"
    and d0: "dom (module_time t0) = dom (module_time (total_time_start (pipe_timer p)))"
    by blast
  define t1 where "t1 = (if ?b then t0 else pipe_timer p)"
  have t1: "(if ?b then module_time_start ''mot'' (total_time_start (pipe_timer p))
          else Inr (pipe_timer p)) = Inr t1"
    using t0 by (auto simp: t1_def split: if_splits)
  have "dom (module_time t1) = dom (module_time (pipe_timer p))"
    using d0 by (simp add: t1_def)
  from is_not_None_dom [OF this] assms(3) have d1: "is_not_None (module_time t1 ''mot'')"
    by simp
  from timed_end_ok [OF d1, of ?b] obtain t2 where
    t2: "(if ?b then module_time_end ''mot'' t1 else Inr t1) = Inr t2" by blast
  from Result_update_ok [OF assms(2)] obtain r1 where
    r1: "Result_update (pipeline_res p) (parse_mot_res E (fst (mot_predict E (ext p) [frame]))) ''mot''
         = Inr r1" by blast
  from assms(1) obtain m where m: "mot_predictor p = Some m" by (auto simp: is_not_None_iff)
  show ?thesis
    using t1 t2 r1 m by (simp add: video_mot_def case_prod_beta Let_def)
qed

lemma video_attr_ok:
  assumes "is_not_None (attr_predictor p)" "is_not_None (res_dict (pipeline_res p) ''attr'')"
    "is_not_None (module_time (pipe_timer p) ''attr'')"
  shows "\<exists>q. video_attr E crop_input frame_id p = Inr q"
proof -
  let ?b = "int frame_id > warmup_frame p"
  from timed_start_ok [OF assms(3), of ?b] obtain t1 where
    t1: "(if ?b then module_time_start ''attr'' (pipe_timer p) else Inr (pipe_timer p)) = Inr t1"
    and d0: "dom (module_time t1) = dom (module_time (pipe_timer p))"
    by blast
  from is_not_None_dom [OF d0] assms(3) have d1: "is_not_None (module_time t1 ''attr'')"
    by simp
  from timed_end_ok [OF d1, of ?b] obtain t2 where
    t2: "(if ?b then module_time_end ''attr'' t1 else Inr t1) = Inr t2" by blast
  from Result_update_ok [OF assms(2)] obtain r1 where
    r1: "Result_update (pipeline_res p) (fst (attr_predict E (ext p) crop_input)) ''attr'' = Inr r1"
    by blast
  from assms(1) obtain m where m: "attr_predictor p = Some m" by (auto simp: is_not_None_iff)
  show ?thesis
    using t1 t2 r1 m by (simp add: video_attr_def case_prod_beta)
qed

section \<open>One pass of the video loop\<close>

lemma Result_update_entry:
  assumes "Result_update r res name = Inr r'"
  shows "\<exists>old. res_dict r name = Some old \<and> res_dict r' = (res_dict r)(name \<mapsto> old ++ res)"
  using assms by (auto simp: Result_update_def split: option.splits)

lemma video_count_fields [simp]:
  "pipeline_res (video_count frame_id p) = pipeline_res p"
  "trace (video_count frame_id p) = trace p"
  "multi_camera (video_count frame_id p) = multi_camera p"
  "cfg (video_count frame_id p) = cfg p"
  by (simp_all add: video_count_def)

lemma video_mot_result:
  assumes "video_mot E frame frame_id p = Inr (mot_res, q)"
  shows "mot_res = parse_mot_res E (fst (mot_predict E (ext p) [frame]))
       \<and> trace q = trace p @ [EvMot frame]
       \<and> Result_update (pipeline_res p) mot_res ''mot'' = Inr (pipeline_res q)"
  using assms
  by (auto simp: video_mot_def bind_err_eq_Inr Let_def case_prod_beta)

lemma video_attr_result:
  assumes "video_attr E crop_input frame_id p = Inr q"
  shows "trace q = trace p @ [EvAttr crop_input]
       \<and> Result_update (pipeline_res p) (fst (attr_predict E (ext p) crop_input)) ''attr''
           = Inr (pipeline_res q)"
  using assms
  by (auto simp: video_attr_def bind_err_eq_Inr case_prod_beta)

lemma video_action_result:
  assumes "video_action E crop_input p = Inr q"
  shows "trace q = trace p @ [EvKpt crop_input]"
  using assms
  by (auto simp: video_action_def bind_err_eq_Inr Let_def case_prod_beta split: if_splits)

text \<open>The stages that a pass went through when it returned.\<close>

lemma video_tick_stages:
  assumes "video_tick E frame frame_id p = Inr q"
  obtains mot_res p1 p2 p3 es where
    "video_mot E frame frame_id p = Inr (mot_res, p1)"
    "(if is_not_None (with_attr p1)
      then video_attr E (crop_image_with_mot E frame mot_res) frame_id p1
      else Inr p1) = Inr p2"
    "(if is_not_None (with_action p2)
      then video_action E (crop_image_with_mot E frame mot_res) p2
      else Inr p2) = Inr p3"
    "multi_camera p3 = False"
    "trace q = trace p3 @ es"
    "es = [] \<or> (\<exists>im. es = [EvWrite im])"
proof -
  from assms obtain mot_res p1 p2 p3 where
    m: "video_mot E frame frame_id p = Inr (mot_res, p1)"
    and a: "(if is_not_None (with_attr p1)
             then video_attr E (crop_image_with_mot E frame mot_res) frame_id p1
             else Inr p1) = Inr p2"
    and k: "(if is_not_None (with_action p2)
             then video_action E (crop_image_with_mot E frame mot_res) p2
             else Inr p2) = Inr p3"
    and q: "(if multi_camera (video_count frame_id p3)
       then Inl (AttributeError ''get_valid_instance'')
       else
         bind_err (cfg_getitem ''visual'' (visual (cfg (video_count frame_id p3)))) (\<lambda>vis.
         if vis then
           bind_err (visualize_video E frame (video_count frame_id p3) (frame_id + 1))
             (\<lambda>(im, result).
           Inr ((video_count frame_id p3)\<lparr>pipeline_res := result,
                  trace := trace (video_count frame_id p3) @ [EvWrite im]\<rparr>))
         else Inr (video_count frame_id p3))) = Inr q"
    by (auto simp: video_tick_def Let_def bind_err_eq_Inr)
  from q have mc: "multi_camera p3 = False" by (auto split: if_splits)
  from q mc obtain vis where vis: "visual (cfg p3) = Some vis"
    and q': "(if vis then
           bind_err (visualize_video E frame (video_count frame_id p3) (frame_id + 1))
             (\<lambda>(im, result).
           Inr ((video_count frame_id p3)\<lparr>pipeline_res := result,
                  trace := trace (video_count frame_id p3) @ [EvWrite im]\<rparr>))
         else Inr (video_count frame_id p3)) = Inr q"
    by (cases "visual (cfg p3)") simp_all
  have "\<exists>es. trace q = trace p3 @ es \<and> (es = [] \<or> (\<exists>im. es = [EvWrite im]))"
  proof (cases vis)
    case True
    with q' obtain im where "trace q = trace p3 @ [EvWrite im]"
      by (auto simp: bind_err_eq_Inr)
    then show ?thesis by blast
  next
    case False
    with q' have "q = video_count frame_id p3" by simp
    then have "trace q = trace p3 @ []" by simp
    then show ?thesis by blast
  qed
  then obtain es where
    "trace q = trace p3 @ es"
    "es = [] \<or> (\<exists>im. es = [EvWrite im])"
    by blast
  with m a k mc show thesis by (rule that)
qed

lemma video_tick_trace:
  assumes "video_tick E frame frame_id p = Inr q"
  shows "\<exists>es. trace q = trace p @ es \<and> mot_frames es = [frame] \<and> EvRelease \<notin> set es"
proof -
  from assms obtain mot_res p1 p2 p3 es where
    m: "video_mot E frame frame_id p = Inr (mot_res, p1)"
    and a: "(if is_not_None (with_attr p1)
             then video_attr E (crop_image_with_mot E frame mot_res) frame_id p1
             else Inr p1) = Inr p2"
    and k: "(if is_not_None (with_action p2)
             then video_action E (crop_image_with_mot E frame mot_res) p2
             else Inr p2) = Inr p3"
    and q: "trace q = trace p3 @ es"
    and es: "es = [] \<or> (\<exists>im. es = [EvWrite im])"
    by (rule video_tick_stages)
  from video_mot_result [OF m] have t1: "trace p1 = trace p @ [EvMot frame]" by simp
  from a obtain ea where t2: "trace p2 = trace p1 @ ea"
    and ea: "ea = [] \<or> (\<exists>c. ea = [EvAttr c])"
    by (cases "is_not_None (with_attr p1)") (auto dest: video_attr_result)
  from k obtain ek where t3: "trace p3 = trace p2 @ ek"
    and ek: "ek = [] \<or> (\<exists>c. ek = [EvKpt c])"
    by (cases "is_not_None (with_action p2)") (auto dest: video_action_result)
  have "trace q = trace p @ (EvMot frame # ea @ ek @ es)"
    using q t1 t2 t3 by simp
  moreover have "mot_frames (EvMot frame # ea @ ek @ es) = [frame]"
    using ea ek es by (auto simp: mot_frames_append)
  moreover have "EvRelease \<notin> set (EvMot frame # ea @ ek @ es)"
    using ea ek es by auto
  ultimately show ?thesis by blast
qed

lemma visualize_video_ok:
  assumes "res_dict (pipeline_res p) ''mot'' = Some dm" "is_not_None (dm ''boxes'')"
    "res_dict (pipeline_res p) ''attr'' = Some da" "is_not_None (da ''output'')"
  shows "\<exists>r. visualize_video E im p k = Inr r"
  using assms
  by (auto simp: visualize_video_def Result_get_eq is_not_None_iff)

text \<open>A pass on a ready predictor returns.\<close>

lemma video_tick_ok:
  assumes "video_ready E p"
  shows "\<exists>q. video_tick E frame frame_id p = Inr q"
proof -
  from assms have
    mc: "multi_camera p = False" and act: "with_action p = None"
    and mp: "is_not_None (mot_predictor p)"
    and ap: "is_not_None (with_attr p) \<Longrightarrow> is_not_None (attr_predictor p)"
    and sm: "is_not_None (res_dict (pipeline_res p) ''mot'')"
    and sa: "is_not_None (res_dict (pipeline_res p) ''attr'')"
    and tm: "is_not_None (module_time (pipe_timer p) ''mot'')"
    and ta: "is_not_None (module_time (pipe_timer p) ''attr'')"
    by (auto simp: video_ready_def split: if_splits)
  from assms obtain v where v: "visual (cfg p) = Some v"
    and vis: "v \<Longrightarrow> is_not_None (with_attr p) \<and> mot_has_boxes E \<and> attr_has_output E"
    by (auto simp: video_ready_def split: option.splits if_splits)
  let ?mot_res = "parse_mot_res E (fst (mot_predict E (ext p) [frame]))"
  let ?ci = "crop_image_with_mot E frame ?mot_res"
  from video_mot_ok [OF mp sm tm] obtain p1 where
    m: "video_mot E frame frame_id p = Inr (?mot_res, p1)" by blast
  have s1: "same_setup p p1" using m by (rule video_mot_setup)
  have r1: "video_ready E p1" using assms s1 by (rule video_ready_same_setup)
  from video_mot_result [OF m] have
    u1: "Result_update (pipeline_res p) ?mot_res ''mot'' = Inr (pipeline_res p1)" by simp
  from Result_update_entry [OF u1] obtain old where
    e1: "res_dict (pipeline_res p1) = (res_dict (pipeline_res p))(''mot'' \<mapsto> old ++ ?mot_res)"
    by blast
  have "\<exists>p2. (if is_not_None (with_attr p1) then video_attr E ?ci frame_id p1 else Inr p1) = Inr p2"
  proof (cases "is_not_None (with_attr p1)")
    case True
    with r1 have "is_not_None (attr_predictor p1)"
      "is_not_None (res_dict (pipeline_res p1) ''attr'')"
      "is_not_None (module_time (pipe_timer p1) ''attr'')"
      by (auto simp: video_ready_def split: if_splits)
    from video_attr_ok [OF this] True show ?thesis by simp
  next
    case False
    then show ?thesis by simp
  qed
  then obtain p2 where
    a: "(if is_not_None (with_attr p1) then video_attr E ?ci frame_id p1 else Inr p1) = Inr p2"
    by blast
  have s2: "same_setup p1 p2" using a by (auto split: if_splits dest: video_attr_setup)
  from s1 s2 act mc v have f2: "with_action p2 = None" "multi_camera p2 = False"
    "visual (cfg p2) = Some v" "with_attr p1 = with_attr p"
    by (simp_all add: same_setup_def)
  have vv: "v \<Longrightarrow> \<exists>r. visualize_video E frame (video_count frame_id p2) (frame_id + 1) = Inr r"
  proof -
    assume on: v
    from vis [OF on] have wa: "is_not_None (with_attr p)" and mb: "mot_has_boxes E"
      and ao: "attr_has_output E" by simp_all
    from wa f2 a have va: "video_attr E ?ci frame_id p1 = Inr p2" by simp
    from video_attr_result [OF va] have
      u2: "Result_update (pipeline_res p1) (fst (attr_predict E (ext p1) ?ci)) ''attr''
           = Inr (pipeline_res p2)" by simp
    from Result_update_entry [OF u2] obtain olda where
      e2: "res_dict (pipeline_res p2)
           = (res_dict (pipeline_res p1))(''attr'' \<mapsto> olda ++ fst (attr_predict E (ext p1) ?ci))"
      by blast
    from mb have "is_not_None (?mot_res ''boxes'')" by (simp add: mot_has_boxes_def)
    then have b: "is_not_None ((old ++ ?mot_res) ''boxes'')"
      by (auto simp: is_not_None_iff map_add_def)
    from ao have "is_not_None (fst (attr_predict E (ext p1) ?ci) ''output'')"
      by (simp add: attr_has_output_def)
    then have o: "is_not_None ((olda ++ fst (attr_predict E (ext p1) ?ci)) ''output'')"
      by (auto simp: is_not_None_iff map_add_def)
    have dm: "res_dict (pipeline_res (video_count frame_id p2)) ''mot'' = Some (old ++ ?mot_res)"
      by (simp add: e2 e1)
    have da: "res_dict (pipeline_res (video_count frame_id p2)) ''attr''
              = Some (olda ++ fst (attr_predict E (ext p1) ?ci))"
      by (simp add: e2)
    from visualize_video_ok [OF dm b da o] show ?thesis .
  qed
  show ?thesis
  proof (cases v)
    case True
    from vv [OF True] obtain im r where
      "visualize_video E frame (video_count frame_id p2) (frame_id + 1) = Inr (im, r)" by auto
    with m a f2 True show ?thesis
      by (simp add: video_tick_def Let_def)
  next
    case False
    with m a f2 show ?thesis
      by (simp add: video_tick_def Let_def)
  qed
qed

text \<open>
  The loop on a ready predictor, started at pass \<open>frame_id\<close>, when the first failing
  read from there on is read \<open>n\<close>: it returns, the frames handed to the tracker are the
  frames of the reads \<open>frame_id, ..., n - 1\<close> in order, and the writer is not released
  inside the loop.
\<close>

lemma video_loop_ready:
  assumes "capture n = None" and "\<forall>k. frame_id \<le> k \<and> k < n \<longrightarrow> is_not_None (capture k)"
    and "frame_id \<le> n" and "video_ready E p"
  shows "\<exists>q es fs. video_loop E capture frame_id p = Some (Inr q)
           \<and> same_setup p q
           \<and> trace q = trace p @ es \<and> EvRelease \<notin> set es
           \<and> mot_frames es = fs \<and> map Some fs = map capture [frame_id..<n]"
  using assms
proof (induction "n - frame_id" arbitrary: frame_id p)
  case 0
  then have "capture frame_id = None" by simp
  then have "video_loop E capture frame_id p = Some (Inr p)"
    by (subst video_loop.simps) simp
  with 0 show ?case by simp
next
  case (Suc d)
  from Suc.hyps(2) have lt: "frame_id < n" by simp
  with Suc.prems(2) obtain frame where fr: "capture frame_id = Some frame"
    by (auto simp: is_not_None_iff)
  from video_tick_ok [OF Suc.prems(4)] obtain p1 where
    t: "video_tick E frame frame_id p = Inr p1" by blast
  have s1: "same_setup p p1" using t by (rule video_tick_setup)
  have r1: "video_ready E p1" using Suc.prems(4) s1 by (rule video_ready_same_setup)
  from video_tick_trace [OF t] obtain es1 where
    e1: "trace p1 = trace p @ es1" "mot_frames es1 = [frame]" "EvRelease \<notin> set es1" by blast
  from Suc.hyps(2) lt have d: "d = n - (frame_id + 1)" by simp
  have rest: "\<forall>k. frame_id + 1 \<le> k \<and> k < n \<longrightarrow> is_not_None (capture k)"
    using Suc.prems(2) by simp
  from lt have le: "frame_id + 1 \<le> n" by simp
  from Suc.hyps(1) [OF d Suc.prems(1) rest le r1] obtain q es fs where
    l: "video_loop E capture (frame_id + 1) p1 = Some (Inr q)"
    and s2: "same_setup p1 q"
    and e2: "trace q = trace p1 @ es" "EvRelease \<notin> set es"
    and f2: "mot_frames es = fs" "map Some fs = map capture [frame_id + 1..<n]"
    by blast
  have loop: "video_loop E capture frame_id p = Some (Inr q)"
    using fr t l by (subst video_loop.simps) simp
  have tr: "trace q = trace p @ (es1 @ es)" using e1 e2 by simp
  have nr: "EvRelease \<notin> set (es1 @ es)" using e1 e2 by simp
  have mf: "mot_frames (es1 @ es) = frame # fs" using e1 f2 by (simp add: mot_frames_append)
  have up: "[frame_id..<n] = frame_id # [frame_id + 1..<n]"
    using lt by (simp add: upt_conv_Cons)
  have mp: "map Some (frame # fs) = map capture [frame_id..<n]"
    using f2 fr up by simp
  from loop same_setup_trans [OF s1 s2] tr nr mf mp show ?case by blast
qed


text \<open>
  The loop on any predictor, when it returns normally: the frames handed to the tracker
  are the frames of the reads \<open>frame_id, ..., n - 1\<close> in order, and the writer is not
  released inside the loop.
\<close>

lemma video_loop_trace:
  assumes "capture n = None" and "\<forall>k. frame_id \<le> k \<and> k < n \<longrightarrow> is_not_None (capture k)"
    and "frame_id \<le> n" and "video_loop E capture frame_id p = Some (Inr q)"
  shows "\<exists>es. trace q = trace p @ es \<and> EvRelease \<notin> set es
           \<and> map Some (mot_frames es) = map capture [frame_id..<n]"
  using assms
proof (induction "n - frame_id" arbitrary: frame_id p)
  case 0
  then have "capture frame_id = None" by simp
  then have "video_loop E capture frame_id p = Some (Inr p)"
    by (subst video_loop.simps) simp
  with 0 show ?case by simp
next
  case (Suc d)
  from Suc.hyps(2) have lt: "frame_id < n" by simp
  with Suc.prems(2) obtain frame where fr: "capture frame_id = Some frame"
    by (auto simp: is_not_None_iff)
  have unfold: "video_loop E capture frame_id p =
      (case video_tick E frame frame_id p of
         Inl e \<Rightarrow> Some (Inl e)
       | Inr p1 \<Rightarrow> video_loop E capture (frame_id + 1) p1)"
    using fr by (subst video_loop.simps) simp
  from Suc.prems(4) unfold obtain p1 where
    t: "video_tick E frame frame_id p = Inr p1"
    and l: "video_loop E capture (frame_id + 1) p1 = Some (Inr q)"
    by (cases "video_tick E frame frame_id p") simp_all
  from video_tick_trace [OF t] obtain es1 where
    e1: "trace p1 = trace p @ es1" "mot_frames es1 = [frame]" "EvRelease \<notin> set es1" by blast
  from Suc.hyps(2) lt have d: "d = n - (frame_id + 1)" by simp
  have rest: "\<forall>k. frame_id + 1 \<le> k \<and> k < n \<longrightarrow> is_not_None (capture k)"
    using Suc.prems(2) by simp
  from lt have le: "frame_id + 1 \<le> n" by simp
  from Suc.hyps(1) [OF d Suc.prems(1) rest le l] obtain es where
    e2: "trace q = trace p1 @ es" "EvRelease \<notin> set es"
    and f2: "map Some (mot_frames es) = map capture [frame_id + 1..<n]"
    by blast
  have tr: "trace q = trace p @ (es1 @ es)" using e1 e2 by simp
  have nr: "EvRelease \<notin> set (es1 @ es)" using e1 e2 by simp
  have mf: "mot_frames (es1 @ es) = frame # mot_frames es" using e1 by (simp add: mot_frames_append)
  have up: "[frame_id..<n] = frame_id # [frame_id + 1..<n]"
    using lt by (simp add: upt_conv_Cons)
  have mp: "map Some (mot_frames (es1 @ es)) = map capture [frame_id..<n]"
    using f2 fr up mf by simp
  from tr nr mp show ?case by blast
qed
section \<open>Predictors made by the constructor\<close>

lemma init_store_keys:
  "is_not_None (res_dict Result_init ''det'')" "is_not_None (res_dict Result_init ''mot'')"
  "is_not_None (res_dict Result_init ''attr'')" "is_not_None (res_dict Result_init ''kpt'')"
  "is_not_None (res_dict Result_init ''action'')"
  by (simp_all add: Result_init_def)

lemma init_timer_keys:
  "is_not_None (module_time PipeTimer_init ''det'')" "is_not_None (module_time PipeTimer_init ''mot'')"
  "is_not_None (module_time PipeTimer_init ''attr'')"
  by (simp_all add: PipeTimer_init_def)

lemma init_video_ready:
  assumes "PipePredictor_init w c True False out_dir = Inr p"
    and "case visual c of None \<Rightarrow> False
         | Some v \<Rightarrow> if v then is_not_None (ATTR c) \<and> mot_has_boxes E \<and> attr_has_output E
                     else True"
  shows "video_ready E p"
proof -
  from PipePredictor_init_fields [OF assms(1)] have
    f: "with_attr p = ATTR c" "with_action p = None" "multi_camera p = False" "cfg p = c"
      "pipeline_res p = Result_init" "pipe_timer p = PipeTimer_init"
      "attr_predictor p = ATTR c" "mot_predictor p = MOT c" "is_not_None (MOT c)"
    by simp_all
  show ?thesis
    using assms(2) f(9) unfolding video_ready_def f(1-8)
    by (simp add: init_store_keys init_timer_keys)
qed

lemma init_image_ready:
  assumes "PipePredictor_init w c False multi out_dir = Inr p"
    and "case visual c of None \<Rightarrow> False
         | Some v \<Rightarrow> if v then is_not_None (ATTR c) \<and> is_not_None (crop_thresh c) \<and> det_has_boxes E
                     else True"
  shows "image_ready E p"
proof -
  from PipePredictor_init_fields [OF assms(1)] have
    f: "with_attr p = ATTR c" "cfg p = c"
      "pipeline_res p = Result_init" "pipe_timer p = PipeTimer_init"
      "det_predictor p = DET c" "is_not_None (DET c)"
    by simp_all
  show ?thesis
    using assms(2) f(6) unfolding image_ready_def f(1-5)
    by (simp add: init_store_keys init_timer_keys)
qed

lemma image_ready_same_setup:
  assumes "image_ready E p" and "same_setup p q"
  shows "image_ready E q"
proof -
  from assms(2) have d: "dom (res_dict (pipeline_res q)) = dom (res_dict (pipeline_res p))"
    and t: "dom (module_time (pipe_timer q)) = dom (module_time (pipe_timer p))"
    and f: "det_predictor q = det_predictor p" "with_attr q = with_attr p" "cfg q = cfg p"
    by (simp_all add: same_setup_def)
  show ?thesis
    using assms(1)
    unfolding image_ready_def f is_not_None_dom [OF d] is_not_None_dom [OF t] .
qed

section \<open>Running the model on concrete inputs\<close>

lemmas eval_defs =
  PipePredictor_init_def predict_image_def image_tick_def image_det_def image_attr_def
  image_count_def visualize_image_def visualize_image_item_def attr_item_def
  batch_file_def batch_loop_cnt_def ceil_div_def py_slice_def list_extend_def
  getattr_def getitem_def cfg_getitem_def is_not_None_def
  module_time_start_def module_time_end_def total_time_start_def total_time_end_def
  Times_start_def Times_end_def Times_init_def PipeTimer_init_def
  Result_init_def Result_update_def Result_get_def
  video_tick_def video_mot_def video_attr_def video_action_def video_count_def
  visualize_video_def predict_video_def run_def capture_of_def
  demo_collab_def mask_collab_def demo_section_def image_cfg_def video_cfg_def
  Let_def upt_conv_Cons

section \<open>Batches of image mode\<close>

lemma py_slice_nonneg:
  assumes "0 \<le> a" "0 \<le> b"
  shows "py_slice xs a b = drop (nat a) (take (nat b) xs)"
proof -
  let ?n = "int (length xs)"
  have t: "take (nat (min b ?n)) xs = take (nat b) xs"
  proof (cases "b \<le> ?n")
    case True
    then show ?thesis by (simp add: min_def)
  next
    case False
    then have "length xs \<le> nat b" by simp
    with False show ?thesis by (simp add: min_def)
  qed
  have d: "drop (nat (min a ?n)) (take (nat b) xs) = drop (nat a) (take (nat b) xs)"
  proof (cases "a \<le> ?n")
    case True
    then show ?thesis by (simp add: min_def)
  next
    case False
    then have "length (take (nat b) xs) \<le> nat a" by simp
    moreover from False have "min a ?n = ?n" by (simp add: min_def)
    ultimately show ?thesis by simp
  qed
  from assms t d show ?thesis by (simp add: py_slice_def Let_def)
qed

lemma batch_file_pos:
  assumes "0 < bs"
  shows "batch_file xs bs i = drop (i * nat bs) (take (Suc i * nat bs) xs)"
proof -
  from assms have a: "0 \<le> int i * bs" by simp
  have b: "0 \<le> min ((int i + 1) * bs) (int (length xs))" using assms by simp
  have na: "nat (int i * bs) = i * nat bs" using assms by (simp add: nat_mult_distrib)
  have nb: "nat ((int i + 1) * bs) = Suc i * nat bs"
  proof -
    have "(int i + 1) * bs = int (Suc i) * bs" by simp
    then show ?thesis using assms by (simp only: nat_mult_distrib nat_int of_nat_0_le_iff)
  qed
  have "nat (min ((int i + 1) * bs) (int (length xs))) = min (Suc i * nat bs) (length xs)"
    using nb by (simp add: min_def) linarith
  then have tk: "take (nat (min ((int i + 1) * bs) (int (length xs)))) xs = take (Suc i * nat bs) xs"
    by (simp add: min_def)
  have "batch_file xs bs i = py_slice xs (int i * bs) (min ((int i + 1) * bs) (int (length xs)))"
    by (simp add: batch_file_def Let_def)
  also have "\<dots> = drop (nat (int i * bs)) (take (nat (min ((int i + 1) * bs) (int (length xs)))) xs)"
    by (rule py_slice_nonneg [OF a b])
  also have "\<dots> = drop (i * nat bs) (take (Suc i * nat bs) xs)"
    by (simp only: na tk)
  finally show ?thesis .
qed

lemma concat_batch_file:
  assumes "0 < bs"
  shows "concat (map (batch_file xs bs) [0..<k]) = take (k * nat bs) xs"
proof (induction k)
  case 0
  show ?case by simp
next
  case (Suc k)
  have "take (k * nat bs) xs = take (k * nat bs) (take (Suc k * nat bs) xs)"
    by (simp add: min_def)
  then have "take (k * nat bs) xs @ drop (k * nat bs) (take (Suc k * nat bs) xs)
             = take (Suc k * nat bs) xs"
    by (metis append_take_drop_id)
  with Suc batch_file_pos [OF assms, of xs k] show ?case by simp
qed

lemma ceil_div_bounds:
  assumes "0 < (b::int)"
  shows "a \<le> ceil_div a b * b" and "(ceil_div a b - 1) * b < a"
proof -
  have e: "- a = b * ((- a) div b) + (- a) mod b" by simp
  have m: "0 \<le> (- a) mod b" "(- a) mod b < b" using assms by simp_all
  have c: "ceil_div a b * b = - (b * ((- a) div b))" by (simp add: ceil_div_def)
  from e m c show "a \<le> ceil_div a b * b" by linarith
  have "(ceil_div a b - 1) * b = ceil_div a b * b - b" by (simp add: algebra_simps)
  with e m c show "(ceil_div a b - 1) * b < a" by linarith
qed

lemma batch_loop_cnt_covers:
  assumes "0 < bs"
  shows "length xs \<le> nat (batch_loop_cnt xs bs) * nat bs"
proof -
  let ?c = "batch_loop_cnt xs bs"
  from ceil_div_bounds(1) [OF assms, of "int (length xs)"]
  have le: "int (length xs) \<le> ?c * bs" by (simp add: batch_loop_cnt_def)
  have "0 \<le> ?c"
  proof (rule ccontr)
    assume "\<not> 0 \<le> ?c"
    then have "?c \<le> - 1" by simp
    with assms have "?c * bs \<le> - 1 * bs" by (intro mult_right_mono) simp_all
    with assms le show False by simp
  qed
  with assms have "int (nat ?c * nat bs) = ?c * bs" by simp
  with le show ?thesis by linarith
qed

lemma batch_index_inside:
  assumes "0 < bs" "i < nat (batch_loop_cnt xs bs)"
  shows "i * nat bs < length xs"
proof -
  let ?c = "batch_loop_cnt xs bs"
  from assms(2) have ci: "int i \<le> ?c - 1" by simp
  with assms(1) have "int i * bs \<le> (?c - 1) * bs" by (intro mult_right_mono) simp_all
  also from ceil_div_bounds(2) [OF assms(1), of "int (length xs)"]
  have "(?c - 1) * bs < int (length xs)" by (simp add: batch_loop_cnt_def)
  finally have "int i * bs < int (length xs)" .
  moreover from assms(1) have "int (i * nat bs) = int i * bs" by simp
  ultimately show ?thesis by linarith
qed

lemma batch_file_size:
  assumes "0 < bs" "i < nat (batch_loop_cnt xs bs)"
  shows "batch_file xs bs i \<noteq> []" and "int (length (batch_file xs bs i)) \<le> bs"
proof -
  from batch_index_inside [OF assms] have lt: "i * nat bs < length xs" .
  have len: "length (batch_file xs bs i) = min (Suc i * nat bs) (length xs) - i * nat bs"
    by (simp add: batch_file_pos [OF assms(1)] min.commute)
  from assms(1) have pos: "0 < nat bs" by simp
  from lt pos have "0 < min (Suc i * nat bs) (length xs) - i * nat bs" by (simp add: min_def)
  with len show "batch_file xs bs i \<noteq> []" by auto
  have "min (Suc i * nat bs) (length xs) - i * nat bs \<le> nat bs"
  proof (cases "Suc i * nat bs \<le> length xs")
    case True
    then show ?thesis by (simp add: min_def)
  next
    case False
    then have "length xs \<le> nat bs + i * nat bs" by simp
    then have "length xs - i * nat bs \<le> nat bs" by linarith
    with False show ?thesis by (simp add: min_def)
  qed
  with len assms(1) show "int (length (batch_file xs bs i)) \<le> bs" by linarith
qed

lemma batches_partition:
  assumes "0 < bs"
  shows "concat (map (batch_file xs bs) [0..<nat (batch_loop_cnt xs bs)]) = xs"
  using concat_batch_file [OF assms, of xs "nat (batch_loop_cnt xs bs)"]
    batch_loop_cnt_covers [OF assms, of xs]
  by simp

lemma three_by_two:
  assumes "length xs = 3"
  shows "map length (map (batch_file xs 2) [0..<nat (batch_loop_cnt xs 2)]) = [2, 1]"
proof -
  from assms obtain a b c where "xs = [a, b, c]"
    by (auto simp: length_Suc_conv eval_nat_numeral)
  then show ?thesis
    by (simp add: batch_file_def batch_loop_cnt_def ceil_div_def py_slice_def Let_def
        upt_conv_Cons)
qed

section \<open>One pass of the image loop\<close>

lemma image_count_fields [simp]:
  "pipeline_res (image_count batch_input i p) = pipeline_res p"
  "trace (image_count batch_input i p) = trace p"
  "cfg (image_count batch_input i p) = cfg p"
  by (simp_all add: image_count_def Let_def)

lemma image_det_result:
  assumes "image_det E batch_input i p = Inr (det_res, q)"
  shows "det_res = fst (det_predict E (ext p) batch_input)
       \<and> trace q = trace p @ [EvDet batch_input]
       \<and> Result_update (pipeline_res p) det_res ''det'' = Inr (pipeline_res q)"
  using assms
  by (auto simp: image_det_def bind_err_eq_Inr case_prod_beta)

lemma attr_loop_trace:
  "for_each (attr_item E predictor) crop_inputs (w, l, tr) = Inr (w', l', tr')
     \<Longrightarrow> tr' = tr @ map EvAttr crop_inputs"
proof (induction crop_inputs arbitrary: w l tr)
  case Nil
  then show ?case by simp
next
  case (Cons c cs)
  from for_each_Cons_Inr [OF Cons.prems] obtain s1 where
    step: "attr_item E predictor c (w, l, tr) = Inr s1"
    and rest: "for_each (attr_item E predictor) cs s1 = Inr (w', l', tr')"
    by blast
  from step obtain w1 l1 where s1: "s1 = (w1, l1, tr @ [EvAttr c])"
    by (auto simp: attr_item_def bind_err_eq_Inr case_prod_beta)
  from Cons.IH [OF rest [unfolded s1]] show ?case by simp
qed

lemma image_attr_result:
  assumes "image_attr E batch_input det_res i p = Inr q"
  shows "\<exists>l. trace q = trace p @ map EvAttr (crop_image_with_det E batch_input det_res)
           \<and> Result_update (pipeline_res p) [''output'' \<mapsto> PyList l] ''attr''
               = Inr (pipeline_res q)"
proof -
  from assms obtain w1 l tr where
    loop: "for_each (attr_item E (attr_predictor p)) (crop_image_with_det E batch_input det_res)
             (ext p, [], trace p) = Inr (w1, l, tr)"
    and u: "Result_update (pipeline_res p) [''output'' \<mapsto> PyList l] ''attr'' = Inr (pipeline_res q)"
    and t: "trace q = tr"
    by (auto simp: image_attr_def bind_err_eq_Inr Let_def case_prod_beta)
  from attr_loop_trace [OF loop] t u show ?thesis by auto
qed

lemma visualize_loop_trace:
  "for_each (visualize_image_item E p) xs tr = Inr tr'
     \<Longrightarrow> \<exists>es. tr' = tr @ es \<and> det_batches es = [] \<and> attr_calls es = []"
proof (induction xs arbitrary: tr)
  case Nil
  then show ?case by simp
next
  case (Cons x xs)
  from for_each_Cons_Inr [OF Cons.prems] obtain tr1 where
    step: "visualize_image_item E p x tr = Inr tr1"
    and rest1: "for_each (visualize_image_item E p) xs tr1 = Inr tr'"
    by blast
  from step obtain f im where tr1: "tr1 = tr @ [EvSave f im]"
    by (auto simp: visualize_image_item_def bind_err_eq_Inr case_prod_beta)
  note rest = rest1 [unfolded tr1]
  from Cons.IH [OF rest] obtain es where
    "tr' = (tr @ [EvSave f im]) @ es" "det_batches es = []" "attr_calls es = []" by blast
  then have "tr' = tr @ (EvSave f im # es)" "det_batches (EvSave f im # es) = []"
    "attr_calls (EvSave f im # es) = []" by simp_all
  then show ?case by blast
qed

text \<open>The stages that a pass of the image loop went through when it returned.\<close>

lemma image_tick_stages:
  assumes "image_tick E input i p = Inr q" and "det_predictor p = Some det"
  obtains det_res p1 p2 es where
    "image_det E (map (decode_image E) (batch_file input (batch_size det) i)) i p = Inr (det_res, p1)"
    "(if is_not_None (with_attr p1)
      then image_attr E (map (decode_image E) (batch_file input (batch_size det) i)) det_res i p1
      else Inr p1) = Inr p2"
    "trace q = trace p2 @ es" "det_batches es = []" "attr_calls es = []"
    "pipeline_res q = pipeline_res p2"
proof -
  let ?bf = "batch_file input (batch_size det) i"
  let ?bi = "map (decode_image E) ?bf"
  from assms obtain det_res p1 p2 where
    d: "image_det E ?bi i p = Inr (det_res, p1)"
    and a: "(if is_not_None (with_attr p1) then image_attr E ?bi det_res i p1 else Inr p1) = Inr p2"
    and v: "bind_err (cfg_getitem ''visual'' (visual (cfg (image_count ?bi i p2)))) (\<lambda>vis.
            if vis then visualize_image E ?bf ?bi (image_count ?bi i p2)
            else Inr (image_count ?bi i p2)) = Inr q"
    by (auto simp: image_tick_def Let_def bind_err_eq_Inr)
  from v obtain vis where
    v': "(if vis then visualize_image E ?bf ?bi (image_count ?bi i p2)
          else Inr (image_count ?bi i p2)) = Inr q"
    by (auto simp: bind_err_eq_Inr)
  have "\<exists>es. trace q = trace p2 @ es \<and> det_batches es = [] \<and> attr_calls es = []
           \<and> pipeline_res q = pipeline_res p2"
  proof (cases vis)
    case True
    with v' obtain tr where
      loop: "for_each (visualize_image_item E (image_count ?bi i p2))
               (zip [0..<length ?bf] (zip ?bf ?bi)) (trace p2) = Inr tr"
      and q: "q = (image_count ?bi i p2)\<lparr>trace := tr\<rparr>"
      by (auto simp: visualize_image_def bind_err_eq_Inr)
    from visualize_loop_trace [OF loop] q show ?thesis by auto
  next
    case False
    with v' have "q = image_count ?bi i p2" by simp
    then show ?thesis by simp
  qed
  then obtain es where "trace q = trace p2 @ es" "det_batches es = []" "attr_calls es = []"
    "pipeline_res q = pipeline_res p2" by blast
  with d a show thesis by (rule that)
qed

lemma image_tick_trace:
  assumes "image_tick E input i p = Inr q" and "det_predictor p = Some det"
  shows "det_batches (trace q)
         = det_batches (trace p) @ [map (decode_image E) (batch_file input (batch_size det) i)]"
proof -
  let ?bi = "map (decode_image E) (batch_file input (batch_size det) i)"
  from assms obtain det_res p1 p2 es where
    d: "image_det E ?bi i p = Inr (det_res, p1)"
    and a: "(if is_not_None (with_attr p1) then image_attr E ?bi det_res i p1 else Inr p1) = Inr p2"
    and t: "trace q = trace p2 @ es" "det_batches es = []"
    by (rule image_tick_stages)
  from image_det_result [OF d] have t1: "trace p1 = trace p @ [EvDet ?bi]" by simp
  have t2: "\<exists>cs. trace p2 = trace p1 @ map EvAttr cs"
  proof (cases "is_not_None (with_attr p1)")
    case True
    with a image_attr_result [of E ?bi det_res i p1 p2] show ?thesis by auto
  next
    case False
    with a have "trace p2 = trace p1 @ map EvAttr []" by simp
    then show ?thesis by blast
  qed
  then obtain cs where t2': "trace p2 = trace p1 @ map EvAttr cs" by blast
  have z: "det_batches (map EvAttr cs) = []" by (induction cs) simp_all
  from t t1 t2' z show ?thesis by (simp add: det_batches_append)
qed

lemma image_loop_trace:
  assumes "for_each (image_tick E input) xs p = Inr q" and "det_predictor p = Some det"
  shows "det_batches (trace q)
         = det_batches (trace p)
           @ map (\<lambda>i. map (decode_image E) (batch_file input (batch_size det) i)) xs"
  using assms
proof (induction xs arbitrary: p)
  case Nil
  then show ?case by simp
next
  case (Cons x xs)
  from Cons.prems(1) obtain p1 where
    t: "image_tick E input x p = Inr p1" and rest: "for_each (image_tick E input) xs p1 = Inr q"
    by (auto split: sum.splits)
  from image_tick_setup [OF t] Cons.prems(2) have d1: "det_predictor p1 = Some det"
    by (simp add: same_setup_def)
  from Cons.IH [OF rest d1] image_tick_trace [OF t Cons.prems(2)] show ?case by simp
qed

lemma predict_image_trace:
  assumes "predict_image E p input = Inr q" and "det_predictor p = Some det"
  shows "det_batches (trace q)
         = det_batches (trace p)
           @ map (\<lambda>i. map (decode_image E) (batch_file input (batch_size det) i))
               [0..<nat (batch_loop_cnt input (batch_size det))]"
proof -
  from assms have
    "for_each (image_tick E input) [0..<nat (batch_loop_cnt input (batch_size det))] p = Inr q"
    by (auto simp: predict_image_def split: if_splits)
  from image_loop_trace [OF this assms(2)] show ?thesis .
qed

section \<open>A pass of the image loop without crops\<close>

lemma for_each_ok:
  assumes "\<And>x s. x \<in> set xs \<Longrightarrow> \<exists>s'. body x s = Inr s'"
  shows "\<exists>s'. for_each body xs s = Inr s'"
  using assms
proof (induction xs arbitrary: s)
  case Nil
  show ?case by simp
next
  case (Cons x xs)
  from Cons.prems [of x s] obtain s1 where s1: "body x s = Inr s1" by auto
  have "\<exists>s'. for_each body xs s1 = Inr s'"
  proof (rule Cons.IH)
    fix y t assume "y \<in> set xs"
    then show "\<exists>s'. body y t = Inr s'" using Cons.prems [of y t] by simp
  qed
  with s1 show ?case by simp
qed

lemma image_det_ok:
  assumes "is_not_None (res_dict (pipeline_res p) ''det'')"
    "is_not_None (module_time (pipe_timer p) ''det'')"
  shows "\<exists>q. image_det E batch_input i p = Inr (fst (det_predict E (ext p) batch_input), q)"
proof -
  let ?b = "int i > warmup_frame p"
  from assms(2) have "is_not_None (module_time (total_time_start (pipe_timer p)) ''det'')" by simp
  from timed_start_ok [OF this, of ?b] obtain t0 where
    t0: "(if ?b then module_time_start ''det'' (total_time_start (pipe_timer p))
          else Inr (total_time_start (pipe_timer p))) = Inr t0"
    and d0: "dom (module_time t0) = dom (module_time (total_time_start (pipe_timer p)))"
    by blast
  define t1 where "t1 = (if ?b then t0 else pipe_timer p)"
  have t1: "(if ?b then module_time_start ''det'' (total_time_start (pipe_timer p))
          else Inr (pipe_timer p)) = Inr t1"
    using t0 by (auto simp: t1_def split: if_splits)
  have "dom (module_time t1) = dom (module_time (pipe_timer p))"
    using d0 by (simp add: t1_def)
  from is_not_None_dom [OF this] assms(2) have d1: "is_not_None (module_time t1 ''det'')"
    by simp
  from timed_end_ok [OF d1, of ?b] obtain t2 where
    t2: "(if ?b then module_time_end ''det'' t1 else Inr t1) = Inr t2" by blast
  from Result_update_ok [OF assms(1)] obtain r1 where
    r1: "Result_update (pipeline_res p) (fst (det_predict E (ext p) batch_input)) ''det'' = Inr r1"
    by blast
  show ?thesis
    using t1 t2 r1 by (simp add: image_det_def case_prod_beta)
qed

lemma image_attr_no_crops:
  assumes "crop_image_with_det E batch_input det_res = []"
    and "image_attr E batch_input det_res i p = Inr q"
  shows "trace q = trace p
       \<and> Result_update (pipeline_res p) [''output'' \<mapsto> PyList []] ''attr'' = Inr (pipeline_res q)"
  using assms(2)
  by (auto simp: image_attr_def assms(1) bind_err_eq_Inr Let_def)

lemma image_attr_no_crops_ok:
  assumes "crop_image_with_det E batch_input det_res = []"
    and "is_not_None (res_dict (pipeline_res p) ''attr'')"
    and "is_not_None (module_time (pipe_timer p) ''attr'')"
  shows "\<exists>q. image_attr E batch_input det_res i p = Inr q"
proof -
  let ?b = "int i > warmup_frame p"
  from timed_start_ok [OF assms(3), of ?b] obtain t1 where
    t1: "(if ?b then module_time_start ''attr'' (pipe_timer p) else Inr (pipe_timer p)) = Inr t1"
    and d0: "dom (module_time t1) = dom (module_time (pipe_timer p))"
    by blast
  from is_not_None_dom [OF d0] assms(3) have d1: "is_not_None (module_time t1 ''attr'')"
    by simp
  from timed_end_ok [OF d1, of ?b] obtain t2 where
    t2: "(if ?b then module_time_end ''attr'' t1 else Inr t1) = Inr t2" by blast
  from Result_update_ok [OF assms(2)] obtain r1 where
    r1: "Result_update (pipeline_res p) [''output'' \<mapsto> PyList []] ''attr'' = Inr r1"
    by blast
  show ?thesis
    using t1 t2 r1 by (simp add: image_attr_def assms(1) Let_def)
qed

lemma visualize_image_item_ok:
  assumes "res_dict (pipeline_res p) ''det'' = Some dd"
    "is_not_None (dd ''boxes_num'')" "is_not_None (dd ''boxes'')"
    "is_not_None (crop_thresh (cfg p))"
    "res_dict (pipeline_res p) ''attr'' = Some da" "is_not_None (da ''output'')"
  shows "\<exists>tr'. visualize_image_item E p x tr = Inr tr'"
  using assms
  by (cases x) (auto simp: visualize_image_item_def Result_get_eq is_not_None_iff)

lemma visualize_image_ok:
  assumes "res_dict (pipeline_res p) ''det'' = Some dd"
    "is_not_None (dd ''boxes_num'')" "is_not_None (dd ''boxes'')"
    "is_not_None (crop_thresh (cfg p))"
    "res_dict (pipeline_res p) ''attr'' = Some da" "is_not_None (da ''output'')"
  shows "\<exists>q. visualize_image E im_files images p = Inr q"
proof -
  have "\<exists>tr'. for_each (visualize_image_item E p)
                (zip [0..<length im_files] (zip im_files images)) (trace p) = Inr tr'"
    by (rule for_each_ok) (rule visualize_image_item_ok [OF assms])
  then show ?thesis by (auto simp: visualize_image_def)
qed

text \<open>
  With the attribute stage on and no crop group, a pass on a ready predictor returns,
  and it has written \<open>{'output': []}\<close> under \<open>attr\<close> without calling the attribute
  predictor.
\<close>

lemma image_tick_no_crops:
  assumes ready: "image_ready E p" and on: "is_not_None (with_attr p)"
    and det: "det_predictor p = Some det"
    and zero: "crop_image_with_det E (map (decode_image E) (batch_file input (batch_size det) i))
                 (fst (det_predict E (ext p)
                    (map (decode_image E) (batch_file input (batch_size det) i)))) = []"
  shows "\<exists>q d. image_tick E input i p = Inr q
           \<and> Result_get (pipeline_res q) ''attr'' = Some d \<and> d ''output'' = Some (PyList [])
           \<and> attr_calls (trace q) = attr_calls (trace p)"
proof -
  let ?bf = "batch_file input (batch_size det) i"
  let ?bi = "map (decode_image E) ?bf"
  let ?det_res = "fst (det_predict E (ext p) ?bi)"
  from ready have
    sd: "is_not_None (res_dict (pipeline_res p) ''det'')"
    and td: "is_not_None (module_time (pipe_timer p) ''det'')"
    by (simp_all add: image_ready_def)
  from ready obtain v where v: "visual (cfg p) = Some v"
    and vis: "v \<Longrightarrow> is_not_None (crop_thresh (cfg p)) \<and> det_has_boxes E"
    by (auto simp: image_ready_def split: option.splits if_splits)
  from image_det_ok [OF sd td] obtain p1 where
    d: "image_det E ?bi i p = Inr (?det_res, p1)" by blast
  have s1: "same_setup p p1" using d by (rule image_det_setup)
  have r1: "image_ready E p1" using ready s1 by (rule image_ready_same_setup)
  from s1 on have on1: "is_not_None (with_attr p1)" by (simp add: same_setup_def)
  from image_det_result [OF d] have
    u1: "Result_update (pipeline_res p) ?det_res ''det'' = Inr (pipeline_res p1)"
    and t1: "trace p1 = trace p @ [EvDet ?bi]" by simp_all
  from Result_update_entry [OF u1] obtain old where
    e1: "res_dict (pipeline_res p1) = (res_dict (pipeline_res p))(''det'' \<mapsto> old ++ ?det_res)"
    by blast
  from r1 have sa1: "is_not_None (res_dict (pipeline_res p1) ''attr'')"
    and ta1: "is_not_None (module_time (pipe_timer p1) ''attr'')"
    by (simp_all add: image_ready_def)
  from image_attr_no_crops_ok [OF zero sa1 ta1] obtain p2 where
    a: "image_attr E ?bi ?det_res i p1 = Inr p2" by blast
  have s2: "same_setup p1 p2" using a by (rule image_attr_setup)
  from image_attr_no_crops [OF zero a] have
    u2: "Result_update (pipeline_res p1) [''output'' \<mapsto> PyList []] ''attr'' = Inr (pipeline_res p2)"
    and t2: "trace p2 = trace p1" by simp_all
  from Result_update_entry [OF u2] obtain olda where
    e2: "res_dict (pipeline_res p2)
         = (res_dict (pipeline_res p1))(''attr'' \<mapsto> olda ++ [''output'' \<mapsto> PyList []])"
    by blast
  let ?p3 = "image_count ?bi i p2"
  from s1 s2 v have c3: "visual (cfg p2) = Some v" "cfg p2 = cfg p"
    by (simp_all add: same_setup_def)
  have da: "res_dict (pipeline_res ?p3) ''attr'' = Some (olda ++ [''output'' \<mapsto> PyList []])"
    by (simp add: e2)
  have out: "(olda ++ [''output'' \<mapsto> PyList []]) ''output'' = Some (PyList [])" by simp
  have "\<exists>q. (if v then visualize_image E ?bf ?bi ?p3 else Inr ?p3) = Inr q"
  proof (cases v)
    case True
    from vis [OF True] have ct: "is_not_None (crop_thresh (cfg ?p3))" and hb: "det_has_boxes E"
      by (simp_all add: c3)
    have dd: "res_dict (pipeline_res ?p3) ''det'' = Some (old ++ ?det_res)"
      by (simp add: e2 e1)
    from hb have "is_not_None (?det_res ''boxes_num'')" "is_not_None (?det_res ''boxes'')"
      by (simp_all add: det_has_boxes_def)
    then have bn: "is_not_None ((old ++ ?det_res) ''boxes_num'')"
      and bx: "is_not_None ((old ++ ?det_res) ''boxes'')"
      by (auto simp: is_not_None_iff map_add_def)
    have oo: "is_not_None ((olda ++ [''output'' \<mapsto> PyList []]) ''output'')" by simp
    from visualize_image_ok [OF dd bn bx ct da oo] True show ?thesis by simp
  next
    case False
    then show ?thesis by simp
  qed
  then obtain q where
    vq: "(if v then visualize_image E ?bf ?bi ?p3 else Inr ?p3) = Inr q" by blast
  have tick: "image_tick E input i p = Inr q"
    using det d on1 a c3 vq by (simp add: image_tick_def Let_def)
  from tick det obtain det_res' p1' p2' es where
    d': "image_det E ?bi i p = Inr (det_res', p1')"
    and a': "(if is_not_None (with_attr p1') then image_attr E ?bi det_res' i p1' else Inr p1')
             = Inr p2'"
    and tq: "trace q = trace p2' @ es" "det_batches es = []" "attr_calls es = []"
    and rq: "pipeline_res q = pipeline_res p2'"
    by (rule image_tick_stages)
  from d d' have same1: "det_res' = ?det_res \<and> p1' = p1" by simp
  from a' same1 on1 have "image_attr E ?bi ?det_res i p1 = Inr p2'" by simp
  with a have same2: "p2' = p2" by simp
  have g: "Result_get (pipeline_res q) ''attr'' = Some (olda ++ [''output'' \<mapsto> PyList []])"
    using rq same2 e2 by (simp add: Result_get_eq)
  have c: "attr_calls (trace q) = attr_calls (trace p)"
    using tq same2 t2 t1 by (simp add: attr_calls_append)
  show ?thesis
  proof (intro exI conjI)
    show "image_tick E input i p = Inr q" by (rule tick)
    show "Result_get (pipeline_res q) ''attr'' = Some (olda ++ [''output'' \<mapsto> PyList []])"
      by (rule g)
    show "(olda ++ [''output'' \<mapsto> PyList []]) ''output'' = Some (PyList [])" by (rule out)
    show "attr_calls (trace q) = attr_calls (trace p)" by (rule c)
  qed
qed

section \<open>The result store\<close>

text \<open>
  C10. For every string \<open>name\<close> and every store \<open>r\<close> reached from a fresh \<open>Result()\<close> by
  \<open>update\<close> calls: \<open>get\<close> returns the stored dictionary when \<open>name\<close> is one of
  \<open>det, mot, attr, kpt, action\<close> and \<open>None\<close> for every other name (\<open>get\<close> has no
  exception in its result type: it never raises); on the fresh store the stage keys hold
  the empty dictionary; and \<open>update\<close> raises exactly when \<open>name\<close> is not a stage key, the
  exception being \<open>KeyError name\<close>.
\<close>

theorem Result_get_total:
  fixes r :: "'a Result"
  assumes "Result_updates Result_init us = Inr r"
  shows "(if name \<in> set stage_names
          then (\<exists>d. Result_get r name = Some d \<and> res_dict r name = Some d)
          else Result_get r name = None)
       \<and> Result_get (Result_init :: 'a Result) name =
           (if name \<in> set stage_names then Some Map.empty else None)
       \<and> ((\<exists>e. Result_update r res name = Inl e) = (name \<notin> set stage_names))
       \<and> (name \<notin> set stage_names) = (Result_update r res name = Inl (KeyError name))"
proof -
  have d: "dom (res_dict r) = set stage_names"
    using Result_updates_dom [OF assms] dom_Result_init by simp
  have a: "if name \<in> set stage_names
          then (\<exists>d. Result_get r name = Some d \<and> res_dict r name = Some d)
          else Result_get r name = None"
    using d by (auto simp: Result_get_eq)
  have b: "Result_get (Result_init :: 'a Result) name =
           (if name \<in> set stage_names then Some Map.empty else None)"
    by (simp add: Result_get_eq Result_init_def stage_names_def)
  have c: "(\<exists>e. Result_update r res name = Inl e) = (name \<notin> set stage_names)"
    using d by (simp add: Result_update_fails_iff)
  have e: "(name \<notin> set stage_names) = (Result_update r res name = Inl (KeyError name))"
    using d by (auto simp: Result_update_def split: option.splits)
  from a b c e show ?thesis by blast
qed

theorem Result_get_total_witness:
  "Result_updates Result_init [([''boxes'' \<mapsto> PyObj (1::nat)], ''det'')]
     = Inr \<lparr>res_dict = [''det'' \<mapsto> [''boxes'' \<mapsto> PyObj 1], ''mot'' \<mapsto> Map.empty,
          ''attr'' \<mapsto> Map.empty, ''kpt'' \<mapsto> Map.empty, ''action'' \<mapsto> Map.empty]\<rparr>
   \<and> Result_get (Result_init :: nat Result) ''kpt'' = Some Map.empty
   \<and> Result_get (Result_init :: nat Result) ''pose'' = None"
proof -
  have u: "Result_updates Result_init [([''boxes'' \<mapsto> PyObj (1::nat)], ''det'')]
     = Inr \<lparr>res_dict = [''det'' \<mapsto> [''boxes'' \<mapsto> PyObj 1], ''mot'' \<mapsto> Map.empty,
          ''attr'' \<mapsto> Map.empty, ''kpt'' \<mapsto> Map.empty, ''action'' \<mapsto> Map.empty]\<rparr>"
    by (auto simp: Result_updates_def Result_update_def Result_init_def fun_eq_iff)
  have k: "Result_get (Result_init :: nat Result) ''kpt'' = Some Map.empty"
    using Result_get_total [OF u, of "''kpt''"] by (simp add: stage_names_def)
  have p: "Result_get (Result_init :: nat Result) ''pose'' = None"
    using Result_get_total [OF u, of "''pose''"] by (simp add: stage_names_def)
  from u k p show ?thesis by blast
qed

text \<open>
  C6, as the claim states it, fails: \<open>update\<close> merges into the stored dictionary. After
  one tick writes \<open>{boxes: 1, masks: 2}\<close> under \<open>det\<close> and the next tick writes
  \<open>{boxes: 3}\<close>, the entry read for \<open>det\<close> still holds the \<open>masks\<close> of the earlier tick.
  The same happens in a run of \<open>predict_image\<close> on two images in batches of one, with a
  detector whose result carries \<open>masks\<close> for the first image only: after the second
  batch the entry under \<open>det\<close> holds the boxes of the second image and the masks of the
  first.
\<close>

theorem Result_update_keeps_old_keys:
  "bind_err (Result_update Result_init [''boxes'' \<mapsto> PyObj (1::nat), ''masks'' \<mapsto> PyObj 2] ''det'')
     (\<lambda>r1. bind_err (Result_update r1 [''boxes'' \<mapsto> PyObj 3] ''det'')
     (\<lambda>r2. Inr (map_option (\<lambda>d. (d ''boxes'', d ''masks'')) (Result_get r2 ''det''))))
   = Inr (Some (Some (PyObj 3), Some (PyObj 2)))
   \<and> bind_err (PipePredictor_init (0::nat) (image_cfg 1) False False ''output'') (\<lambda>p.
     bind_err (predict_image mask_collab p [''a'', ''b'']) (\<lambda>q.
     Inr (det_batches (trace q),
          map_option (\<lambda>d. (d ''boxes'', d ''masks'')) (Result_get (pipeline_res q) ''det''))))
     = Inr ([[''a''], [''b'']], Some (Some (PyObj 0), Some (PyObj 7)))"
proof (intro conjI)
  show "bind_err (Result_update Result_init [''boxes'' \<mapsto> PyObj (1::nat), ''masks'' \<mapsto> PyObj 2] ''det'')
     (\<lambda>r1. bind_err (Result_update r1 [''boxes'' \<mapsto> PyObj 3] ''det'')
     (\<lambda>r2. Inr (map_option (\<lambda>d. (d ''boxes'', d ''masks'')) (Result_get r2 ''det''))))
   = Inr (Some (Some (PyObj 3), Some (PyObj 2)))"
    by (simp add: Result_update_def Result_init_def Result_get_def)
  show "bind_err (PipePredictor_init (0::nat) (image_cfg 1) False False ''output'') (\<lambda>p.
     bind_err (predict_image mask_collab p [''a'', ''b'']) (\<lambda>q.
     Inr (det_batches (trace q),
          map_option (\<lambda>d. (d ''boxes'', d ''masks'')) (Result_get (pipeline_res q) ''det''))))
     = Inr ([[''a''], [''b'']], Some (Some (PyObj 0), Some (PyObj 7)))"
    by (simp add: eval_defs)
qed

text \<open>
  C6, amended. A successful \<open>update res name\<close> leaves under \<open>name\<close> the old dictionary
  overwritten by \<open>res\<close>: every key of \<open>res\<close> holds the new value, every other key keeps the
  value stored before, and the entries of the other stages are untouched. The entry is
  exactly \<open>res\<close> when every key stored before is a key of \<open>res\<close>.
\<close>

theorem Result_update_merges:
  assumes "Result_update r res name = Inr r'"
  shows "\<exists>old. Result_get r name = Some old
           \<and> Result_get r' name = Some (old ++ res)
           \<and> (\<forall>k v. res k = Some v \<longrightarrow> (old ++ res) k = Some v)
           \<and> (\<forall>k. res k = None \<longrightarrow> (old ++ res) k = old k)
           \<and> (dom old \<subseteq> dom res \<longrightarrow> Result_get r' name = Some res)
           \<and> (\<forall>other. other \<noteq> name \<longrightarrow> Result_get r' other = Result_get r other)"
proof -
  from assms obtain old where old: "res_dict r name = Some old"
    and r': "r' = r\<lparr>res_dict := (res_dict r)(name \<mapsto> old ++ res)\<rparr>"
    by (auto simp: Result_update_def split: option.splits)
  have full: "dom old \<subseteq> dom res \<Longrightarrow> old ++ res = res"
  proof (rule ext)
    fix k assume sub: "dom old \<subseteq> dom res"
    show "(old ++ res) k = res k"
    proof (cases "res k")
      case None
      with sub have "old k = None" by (auto simp: dom_def)
      with None show ?thesis by (simp add: map_add_def)
    next
      case (Some v)
      then show ?thesis by (simp add: map_add_def)
    qed
  qed
  show ?thesis
    using old r' full
    by (auto simp: Result_get_eq map_add_def split: option.splits)
qed

theorem Result_update_merges_witness:
  "Result_update Result_init [''boxes'' \<mapsto> PyObj (3::nat)] ''det''
     = Inr \<lparr>res_dict = [''det'' \<mapsto> [''boxes'' \<mapsto> PyObj 3], ''mot'' \<mapsto> Map.empty,
          ''attr'' \<mapsto> Map.empty, ''kpt'' \<mapsto> Map.empty, ''action'' \<mapsto> Map.empty]\<rparr>
   \<and> Result_get \<lparr>res_dict = [''det'' \<mapsto> [''boxes'' \<mapsto> PyObj (3::nat)], ''mot'' \<mapsto> Map.empty,
          ''attr'' \<mapsto> Map.empty, ''kpt'' \<mapsto> Map.empty, ''action'' \<mapsto> Map.empty]\<rparr> ''det''
       = Some [''boxes'' \<mapsto> PyObj 3]"
proof -
  have u: "Result_update Result_init [''boxes'' \<mapsto> PyObj (3::nat)] ''det''
     = Inr \<lparr>res_dict = [''det'' \<mapsto> [''boxes'' \<mapsto> PyObj 3], ''mot'' \<mapsto> Map.empty,
          ''attr'' \<mapsto> Map.empty, ''kpt'' \<mapsto> Map.empty, ''action'' \<mapsto> Map.empty]\<rparr>"
    by (auto simp: Result_update_def Result_init_def fun_eq_iff)
  from Result_update_merges [OF u] u show ?thesis
    by (auto simp: Result_get_eq Result_init_def)
qed

section \<open>Input parsing\<close>

text \<open>
  C4, as the claim states it, fails: with an image file and a video file both given (two
  kinds of source), \<open>_parse_input\<close> raises nothing and takes the image branch.
\<close>

theorem parse_input_two_sources_accepted:
  "spec_sources_given (Some ''a.jpg'') None (Some (VideoPath ''v.mp4'')) (CameraId (- 1)) = 2
   \<and> parse_input (\<lambda>d f. Inr [''a.jpg'']) (\<lambda>s. s) False False
        (Some ''a.jpg'') None (Some (VideoPath ''v.mp4'')) (CameraId (- 1))
      = Inr (Images [''a.jpg''], False, False)"
  by (simp add: spec_sources_given_def parse_input_def)

text \<open>
  C4, amended. \<open>_parse_input\<close> raises the illegal-input error exactly when no source is
  given: \<open>image_file\<close>, \<open>image_dir\<close> and \<open>video_file\<close> are all \<open>None\<close> and \<open>camera_id\<close> is
  \<open>-1\<close>. A combination of sources is not an error: the first branch that applies wins,
  image file or directory before video file before camera. With an image file or an
  image directory given the result is that of \<open>get_test_images\<close>, whatever the video
  and camera arguments are; with neither and a video file given it is the capture of
  that file, or the captures of the list of files, whatever the camera argument is;
  with none of the three it is the capture of the camera, or the captures of the list
  of cameras, unless the camera is \<open>-1\<close>.
\<close>

theorem parse_input_illegal_iff:
  "(parse_input gti vc iv mc image_file image_dir video_file camera_id = Inl IllegalInput)
     = (spec_sources_given image_file image_dir video_file camera_id = 0)
   \<and> (spec_sources_given image_file image_dir video_file camera_id = 0)
     = (image_file = None \<and> image_dir = None \<and> video_file = None \<and> camera_id = CameraId (- 1))
   \<and> parse_input gti vc iv mc (Some f) image_dir video_file camera_id
     = (case gti image_dir (Some f) of
          Inl m \<Rightarrow> Inl (External m) | Inr input \<Rightarrow> Inr (Images input, False, False))
   \<and> parse_input gti vc iv mc image_file (Some d) video_file camera_id
     = (case gti (Some d) image_file of
          Inl m \<Rightarrow> Inl (External m) | Inr input \<Rightarrow> Inr (Images input, False, False))
   \<and> parse_input gti vc iv mc None None (Some (VideoPath v)) camera_id
     = Inr (Capture (vc (FromFile v)), True, mc)
   \<and> parse_input gti vc iv mc None None (Some (VideoPaths vs)) camera_id
     = Inr (Captures (map (\<lambda>v. vc (FromFile v)) vs), True, True)
   \<and> parse_input gti vc iv mc None None None (CameraId c)
     = (if c = - 1 then Inl IllegalInput else Inr (Capture (vc (FromCamera c)), True, mc))
   \<and> parse_input gti vc iv mc None None None (CameraIds cs)
     = Inr (Captures (map (\<lambda>i. vc (FromCamera i)) cs), True, True)"
proof (intro conjI)
  show "(parse_input gti vc iv mc image_file image_dir video_file camera_id = Inl IllegalInput)
     = (spec_sources_given image_file image_dir video_file camera_id = 0)"
    by (cases image_file; cases image_dir; cases video_file; cases camera_id)
       (auto simp: parse_input_def spec_sources_given_def
             split: sum.splits video_arg.splits option.splits)
  show "(spec_sources_given image_file image_dir video_file camera_id = 0)
     = (image_file = None \<and> image_dir = None \<and> video_file = None \<and> camera_id = CameraId (- 1))"
    by (cases image_file; cases image_dir; cases video_file; cases camera_id)
       (auto simp: spec_sources_given_def)
  show "parse_input gti vc iv mc (Some f) image_dir video_file camera_id
     = (case gti image_dir (Some f) of
          Inl m \<Rightarrow> Inl (External m) | Inr input \<Rightarrow> Inr (Images input, False, False))"
    by (simp add: parse_input_def)
  show "parse_input gti vc iv mc image_file (Some d) video_file camera_id
     = (case gti (Some d) image_file of
          Inl m \<Rightarrow> Inl (External m) | Inr input \<Rightarrow> Inr (Images input, False, False))"
    by (simp add: parse_input_def)
  show "parse_input gti vc iv mc None None (Some (VideoPath v)) camera_id
     = Inr (Capture (vc (FromFile v)), True, mc)"
    by (simp add: parse_input_def)
  show "parse_input gti vc iv mc None None (Some (VideoPaths vs)) camera_id
     = Inr (Captures (map (\<lambda>v. vc (FromFile v)) vs), True, True)"
    by (simp add: parse_input_def)
  show "parse_input gti vc iv mc None None None (CameraId c)
     = (if c = - 1 then Inl IllegalInput else Inr (Capture (vc (FromCamera c)), True, mc))"
    by (simp add: parse_input_def)
  show "parse_input gti vc iv mc None None None (CameraIds cs)
     = Inr (Captures (map (\<lambda>i. vc (FromCamera i)) cs), True, True)"
    by (simp add: parse_input_def)
qed

section \<open>The stage flags\<close>

text \<open>
  C8. \<open>with_attr\<close> and \<open>with_action\<close> are set by the constructor from the configuration
  (\<open>cfg.get('ATTR', False)\<close>, \<open>cfg.get('ACTION', False)\<close>), and every method that returns
  leaves them as it found them: one pass of either loop, \<open>predict_image\<close>,
  \<open>predict_video\<close> and \<open>run\<close>. So every pass of a run tests the same flags.
\<close>

theorem stage_flags_fixed:
  "(PipePredictor_init w c video multi out_dir = Inr p
      \<longrightarrow> with_attr p = ATTR c \<and> with_action p = ACTION c)
   \<and> (image_tick E input i p = Inr q
      \<longrightarrow> with_attr q = with_attr p \<and> with_action q = with_action p)
   \<and> (video_tick E frame frame_id p = Inr q
      \<longrightarrow> with_attr q = with_attr p \<and> with_action q = with_action p)
   \<and> (predict_image E p input = Inr q
      \<longrightarrow> with_attr q = with_attr p \<and> with_action q = with_action p)
   \<and> (predict_video E p capture = Some (Inr q)
      \<longrightarrow> with_attr q = with_attr p \<and> with_action q = with_action p)
   \<and> (run E p inp = Some (Inr q)
      \<longrightarrow> with_attr q = with_attr p \<and> with_action q = with_action p)"
proof -
  have a: "PipePredictor_init w c video multi out_dir = Inr p
      \<longrightarrow> with_attr p = ATTR c \<and> with_action p = ACTION c"
    using PipePredictor_init_fields [of w c video multi out_dir p] by simp
  have s: "\<And>q. same_setup p q \<Longrightarrow> with_attr q = with_attr p \<and> with_action q = with_action p"
    by (simp add: same_setup_def)
  have b: "image_tick E input i p = Inr q
      \<longrightarrow> with_attr q = with_attr p \<and> with_action q = with_action p"
  proof
    assume h: "image_tick E input i p = Inr q"
    from s [OF image_tick_setup [OF h]]
    show "with_attr q = with_attr p \<and> with_action q = with_action p" .
  qed
  have c: "video_tick E frame frame_id p = Inr q
      \<longrightarrow> with_attr q = with_attr p \<and> with_action q = with_action p"
  proof
    assume h: "video_tick E frame frame_id p = Inr q"
    from s [OF video_tick_setup [OF h]]
    show "with_attr q = with_attr p \<and> with_action q = with_action p" .
  qed
  have d: "predict_image E p input = Inr q
      \<longrightarrow> with_attr q = with_attr p \<and> with_action q = with_action p"
  proof
    assume h: "predict_image E p input = Inr q"
    from s [OF predict_image_setup [OF h]]
    show "with_attr q = with_attr p \<and> with_action q = with_action p" .
  qed
  have e: "predict_video E p capture = Some (Inr q)
      \<longrightarrow> with_attr q = with_attr p \<and> with_action q = with_action p"
  proof
    assume h: "predict_video E p capture = Some (Inr q)"
    from s [OF predict_video_setup [OF h]]
    show "with_attr q = with_attr p \<and> with_action q = with_action p" .
  qed
  have f: "run E p inp = Some (Inr q)
      \<longrightarrow> with_attr q = with_attr p \<and> with_action q = with_action p"
  proof
    assume h: "run E p inp = Some (Inr q)"
    from s [OF run_setup [OF h]]
    show "with_attr q = with_attr p \<and> with_action q = with_action p" .
  qed
  from a b c d e f show ?thesis by blast
qed

theorem stage_flags_fixed_witness:
  "\<exists>p q. PipePredictor_init (0::nat) (image_cfg 2) False False ''output'' = Inr p
         \<and> run demo_collab p (Images [''a'', ''b'', ''c'']) = Some (Inr q)
         \<and> with_attr p = Some (demo_section 1) \<and> with_attr q = Some (demo_section 1)
         \<and> with_action p = None \<and> with_action q = None"
proof -
  let ?i = "PipePredictor_init (0::nat) (image_cfg 2) False False ''output''
            :: error + (nat, nat, string) PipePredictor"
  let ?p = "projr ?i"
  let ?r = "run demo_collab ?p (Images [''a'', ''b'', ''c''])"
  let ?q = "projr (the ?r)"
  have a: "?i = Inr ?p" by (simp add: eval_defs)
  have b: "?r = Some (Inr ?q)" by (simp add: eval_defs)
  from stage_flags_fixed [where w = 0 and c = "image_cfg 2" and video = False and multi = False
      and out_dir = "''output''" and p = ?p and E = demo_collab
      and inp = "Images [''a'', ''b'', ''c'']" and q = ?q] a b
  have "with_attr ?p = ATTR (image_cfg 2)" "with_action ?p = ACTION (image_cfg 2)"
    "with_attr ?q = with_attr ?p" "with_action ?q = with_action ?p"
    by blast+
  then have "with_attr ?p = Some (demo_section 1)" "with_attr ?q = Some (demo_section 1)"
    "with_action ?p = None" "with_action ?q = None"
    by (simp_all add: image_cfg_def)
  with a b show ?thesis by blast
qed

section \<open>The end of the video loop\<close>

text \<open>
  C9 fails for a tracking-only predictor with visual output on. \<open>visualize_video\<close>
  reads \<open>attr_res['output']\<close> whenever \<open>result.get('attr')\<close> is not \<open>None\<close>, and \<open>get\<close>
  returns the dictionary of a stage key, which is empty while the attribute stage is
  off, and never \<open>None\<close>. So on a video of two frames the pass on the first frame raises
  KeyError: the exception leaves the loop and \<open>predict_video\<close>, the second frame is
  never read, and \<open>writer.release()\<close> is not reached.

  The loop is otherwise as the claim says. Let the read \<open>n\<close> of a capture fail and the
  reads before it succeed. Then \<open>predict_video\<close> terminates in every configuration;
  every run that returns normally has handed to the tracker exactly the frames of the
  reads \<open>0, ..., n - 1\<close>, in the order read, and has released the writer once, as its
  last call, after every stage dispatch; and a predictor that can run a pass without
  raising (\<open>video_ready\<close>; the constructor makes one when the action stage is off and,
  where \<open>visual\<close> is on, the attribute stage is on) does return normally.
\<close>

theorem predict_video_skips_release:
  assumes "capture n = None" and "\<forall>k<n. is_not_None (capture k)"
  shows "(case PipePredictor_init (0::nat) (video_cfg\<lparr>ATTR := None\<rparr>) True False ''output'' of
            Inl e \<Rightarrow> Some (Inl e)
          | Inr p0 \<Rightarrow> predict_video demo_collab p0 (capture_of [''f0'', ''f1'']))
         = Some (Inl (KeyError ''output''))
       \<and> (\<exists>r. predict_video E p capture = Some r)
       \<and> (\<forall>q. predict_video E p capture = Some (Inr q) \<longrightarrow>
            (\<exists>es. trace q = trace p @ es @ [EvRelease] \<and> EvRelease \<notin> set es
               \<and> map Some (mot_frames es) = map capture [0..<n]))
       \<and> (video_ready E p \<longrightarrow> (\<exists>q. predict_video E p capture = Some (Inr q)))
       \<and> (PipePredictor_init w c True False out_dir = Inr p
            \<and> (case visual c of None \<Rightarrow> False
                | Some v \<Rightarrow> if v then is_not_None (ATTR c) \<and> mot_has_boxes E \<and> attr_has_output E
                            else True)
          \<longrightarrow> video_ready E p)"
proof -
  have reads: "\<forall>k. 0 \<le> k \<and> k < n \<longrightarrow> is_not_None (capture k)" using assms(2) by simp
  have f: "(case PipePredictor_init (0::nat) (video_cfg\<lparr>ATTR := None\<rparr>) True False ''output'' of
            Inl e \<Rightarrow> Some (Inl e)
          | Inr p0 \<Rightarrow> predict_video demo_collab p0 (capture_of [''f0'', ''f1'']))
         = Some (Inl (KeyError ''output''))"
    by (simp add: eval_defs video_loop.simps)
  have t: "\<exists>r. predict_video E p capture = Some r"
  proof -
    from video_loop_terminates [where capture = capture and n = n and frame_id = 0
        and E = E and p = p, OF assms(1)]
    obtain r where "video_loop E capture 0 p = Some r" by auto
    then show ?thesis by (cases r) (simp_all add: predict_video_def)
  qed
  have l: "\<forall>q. predict_video E p capture = Some (Inr q) \<longrightarrow>
            (\<exists>es. trace q = trace p @ es @ [EvRelease] \<and> EvRelease \<notin> set es
               \<and> map Some (mot_frames es) = map capture [0..<n])"
  proof (intro allI impI)
    fix q assume ret: "predict_video E p capture = Some (Inr q)"
    then obtain q' where loop: "video_loop E capture 0 p = Some (Inr q')"
      and q: "q = q'\<lparr>trace := trace q' @ [EvRelease]\<rparr>"
      by (auto simp: predict_video_def split: option.splits sum.splits)
    from video_loop_trace [where capture = capture and n = n and frame_id = 0
        and E = E and p = p and q = q', OF assms(1) reads _ loop] obtain es where
      tr: "trace q' = trace p @ es" "EvRelease \<notin> set es"
      and fs: "map Some (mot_frames es) = map capture [0..<n]"
      by auto
    from q tr have "trace q = trace p @ es @ [EvRelease]" by simp
    with tr(2) fs show "\<exists>es. trace q = trace p @ es @ [EvRelease] \<and> EvRelease \<notin> set es
               \<and> map Some (mot_frames es) = map capture [0..<n]"
      by blast
  qed
  have g: "video_ready E p \<longrightarrow> (\<exists>q. predict_video E p capture = Some (Inr q))"
  proof
    assume r: "video_ready E p"
    from video_loop_ready [where capture = capture and n = n and frame_id = 0
        and E = E and p = p, OF assms(1) reads _ r] obtain q where
      "video_loop E capture 0 p = Some (Inr q)"
      by auto
    then have "predict_video E p capture = Some (Inr (q\<lparr>trace := trace q @ [EvRelease]\<rparr>))"
      by (simp add: predict_video_def)
    then show "\<exists>q. predict_video E p capture = Some (Inr q)" by blast
  qed
  have i: "PipePredictor_init w c True False out_dir = Inr p
            \<and> (case visual c of None \<Rightarrow> False
                | Some v \<Rightarrow> if v then is_not_None (ATTR c) \<and> mot_has_boxes E \<and> attr_has_output E
                            else True)
          \<longrightarrow> video_ready E p"
  proof (intro impI, elim conjE)
    assume "PipePredictor_init w c True False out_dir = Inr p"
      and "case visual c of None \<Rightarrow> False
           | Some v \<Rightarrow> if v then is_not_None (ATTR c) \<and> mot_has_boxes E \<and> attr_has_output E
                       else True"
    then show "video_ready E p" by (rule init_video_ready)
  qed
  from f t l g i show ?thesis by (intro conjI)
qed

theorem predict_video_skips_release_witness:
  "\<exists>p q es. PipePredictor_init (0::nat) video_cfg True False ''output'' = Inr p
     \<and> predict_video demo_collab p (capture_of [''f0'', ''f1'', ''f2'']) = Some (Inr q)
     \<and> trace q = trace p @ es @ [EvRelease] \<and> EvRelease \<notin> set es
     \<and> mot_frames es = [''f0'', ''f1'', ''f2'']"
proof -
  let ?cap = "capture_of [''f0'', ''f1'', ''f2'']"
  let ?i = "PipePredictor_init (0::nat) video_cfg True False ''output''
            :: error + (nat, nat, string) PipePredictor"
  let ?p = "projr ?i"
  have e: "?cap 3 = None" by (simp add: capture_of_def)
  have r: "\<forall>k<3. is_not_None (?cap k)" by (simp add: capture_of_def)
  have a: "?i = Inr ?p" by (simp add: eval_defs)
  have v: "case visual video_cfg of None \<Rightarrow> False
           | Some v \<Rightarrow> if v then is_not_None (ATTR video_cfg) \<and> mot_has_boxes demo_collab
                                \<and> attr_has_output demo_collab
                       else True"
    by (simp add: video_cfg_def mot_has_boxes_def attr_has_output_def demo_collab_def)
  note th = predict_video_skips_release [OF e r, where E = demo_collab and p = ?p and w = 0
      and c = video_cfg and out_dir = "''output''"]
  from th a v have "video_ready demo_collab ?p" by blast
  with th obtain q where q: "predict_video demo_collab ?p ?cap = Some (Inr q)" by blast
  with th obtain es where
    t: "trace q = trace ?p @ es @ [EvRelease]" "EvRelease \<notin> set es"
    and f: "map Some (mot_frames es) = map ?cap [0..<3]"
    by blast
  from f have "map Some (mot_frames es) = [Some ''f0'', Some ''f1'', Some ''f2'']"
    by (simp add: capture_of_def upt_conv_Cons)
  then have "mot_frames es = [''f0'', ''f1'', ''f2'']" by (auto simp: map_eq_Cons_conv)
  with a q t show ?thesis by blast
qed

section \<open>Batches of predict_image\<close>

text \<open>
  C2. For a positive batch size, a run of \<open>predict_image\<close> that returns has handed to the
  detector exactly the decoded slices \<open>input[i * bs : min((i + 1) * bs, len(input))]\<close> for
  \<open>i = 0, ..., ceil(len(input) / bs) - 1\<close>, in that order; the slices concatenated are the
  input list, so every image is in exactly one batch; each slice is non-empty and has
  at most \<open>bs\<close> images; and for three images and \<open>bs = 2\<close> there are two batches, of
  sizes 2 and 1.
\<close>

theorem predict_image_batches:
  assumes "predict_image E p input = Inr q" and "det_predictor p = Some det"
    and "0 < batch_size det"
  shows "det_batches (trace q)
           = det_batches (trace p)
             @ map (\<lambda>i. map (decode_image E) (batch_file input (batch_size det) i))
                 [0..<nat (batch_loop_cnt input (batch_size det))]
       \<and> concat (map (batch_file input (batch_size det))
                   [0..<nat (batch_loop_cnt input (batch_size det))]) = input
       \<and> (\<forall>i < nat (batch_loop_cnt input (batch_size det)).
             batch_file input (batch_size det) i \<noteq> []
             \<and> int (length (batch_file input (batch_size det) i)) \<le> batch_size det)
       \<and> (length input = 3 \<and> batch_size det = 2 \<longrightarrow>
             map length (map (batch_file input (batch_size det))
                           [0..<nat (batch_loop_cnt input (batch_size det))]) = [2, 1])"
proof (intro conjI)
  show "det_batches (trace q)
           = det_batches (trace p)
             @ map (\<lambda>i. map (decode_image E) (batch_file input (batch_size det) i))
                 [0..<nat (batch_loop_cnt input (batch_size det))]"
    using assms(1,2) by (rule predict_image_trace)
  show "concat (map (batch_file input (batch_size det))
                   [0..<nat (batch_loop_cnt input (batch_size det))]) = input"
    using assms(3) by (rule batches_partition)
  show "\<forall>i < nat (batch_loop_cnt input (batch_size det)).
             batch_file input (batch_size det) i \<noteq> []
             \<and> int (length (batch_file input (batch_size det) i)) \<le> batch_size det"
    using batch_file_size [OF assms(3)] by blast
  show "length input = 3 \<and> batch_size det = 2 \<longrightarrow>
             map length (map (batch_file input (batch_size det))
                           [0..<nat (batch_loop_cnt input (batch_size det))]) = [2, 1]"
    using three_by_two [of input] by auto
qed

theorem predict_image_batches_witness:
  "\<exists>p q. PipePredictor_init (0::nat) (image_cfg 2) False False ''output'' = Inr p
         \<and> predict_image demo_collab p [''a'', ''b'', ''c''] = Inr q
         \<and> det_batches (trace q) = [[''a'', ''b''], [''c'']]
         \<and> concat [[''a'', ''b''], [''c'']] = [''a'', ''b'', ''c'']"
proof -
  let ?i = "PipePredictor_init (0::nat) (image_cfg 2) False False ''output''
            :: error + (nat, nat, string) PipePredictor"
  let ?p = "projr ?i"
  let ?r = "predict_image demo_collab ?p [''a'', ''b'', ''c'']"
  let ?q = "projr ?r"
  have a: "?i = Inr ?p" by (simp add: eval_defs)
  have b: "?r = Inr ?q" by (simp add: eval_defs)
  have d: "det_predictor ?p = Some (demo_section 2)" by (simp add: eval_defs)
  have pos: "0 < batch_size (demo_section 2)" by (simp add: demo_section_def)
  have t: "trace ?p = []" by (simp add: eval_defs)
  have s: "map (\<lambda>i. map (decode_image demo_collab)
                  (batch_file [''a'', ''b'', ''c''] (batch_size (demo_section 2)) i))
             [0..<nat (batch_loop_cnt [''a'', ''b'', ''c''] (batch_size (demo_section 2)))]
           = [[''a'', ''b''], [''c'']]"
    by (simp add: eval_defs)
  from predict_image_batches [OF b d pos] have
    "det_batches (trace ?q) = [[''a'', ''b''], [''c'']]"
    by (simp only: t s det_batches.simps append_Nil)
  with a b show ?thesis by auto
qed

section \<open>The attribute stage without detections\<close>

text \<open>
  C5. Take a pass of the image loop with the attribute stage on in which there is no
  crop group (\<open>crop_image_with_det\<close> returns the empty list for the detector's result).
  On a predictor that can run a pass (\<open>image_ready\<close>) the pass returns: it raises
  nothing, the attribute predictor is not called, and the entry read under \<open>attr\<close> holds
  \<open>output\<close> with the empty list. The constructor makes such a predictor, and a pass
  that returns leaves it one.
\<close>

theorem image_tick_no_boxes_empty_attr:
  assumes "is_not_None (with_attr p)" and "det_predictor p = Some det"
    and "crop_image_with_det E (map (decode_image E) (batch_file input (batch_size det) i))
           (fst (det_predict E (ext p)
              (map (decode_image E) (batch_file input (batch_size det) i)))) = []"
  shows "(image_ready E p \<longrightarrow>
            (\<exists>q d. image_tick E input i p = Inr q
               \<and> Result_get (pipeline_res q) ''attr'' = Some d \<and> d ''output'' = Some (PyList [])
               \<and> attr_calls (trace q) = attr_calls (trace p)))
       \<and> (PipePredictor_init w c False multi out_dir = Inr p0
            \<and> (case visual c of None \<Rightarrow> False
                | Some v \<Rightarrow> if v then is_not_None (ATTR c) \<and> is_not_None (crop_thresh c)
                                     \<and> det_has_boxes E
                            else True)
          \<longrightarrow> image_ready E p0)
       \<and> (image_ready E p1 \<and> image_tick E input j p1 = Inr p2 \<longrightarrow> image_ready E p2)"
proof (intro conjI impI)
  assume "image_ready E p"
  from image_tick_no_crops [OF this assms]
  show "\<exists>q d. image_tick E input i p = Inr q
               \<and> Result_get (pipeline_res q) ''attr'' = Some d \<and> d ''output'' = Some (PyList [])
               \<and> attr_calls (trace q) = attr_calls (trace p)" .
next
  assume "PipePredictor_init w c False multi out_dir = Inr p0
            \<and> (case visual c of None \<Rightarrow> False
                | Some v \<Rightarrow> if v then is_not_None (ATTR c) \<and> is_not_None (crop_thresh c)
                                     \<and> det_has_boxes E
                            else True)"
  then show "image_ready E p0" by (elim conjE) (rule init_image_ready)
next
  assume "image_ready E p1 \<and> image_tick E input j p1 = Inr p2"
  then show "image_ready E p2"
    by (elim conjE) (rule image_ready_same_setup, assumption, rule image_tick_setup)
qed

theorem image_tick_no_boxes_empty_attr_witness:
  "\<exists>p q d. PipePredictor_init (0::nat) ((image_cfg 1)\<lparr>visual := Some True\<rparr>) False False ''output''
             = Inr p
           \<and> image_tick demo_collab [''a''] 0 p = Inr q
           \<and> Result_get (pipeline_res q) ''attr'' = Some d \<and> d ''output'' = Some (PyList [])
           \<and> attr_calls (trace q) = []"
proof -
  let ?c = "(image_cfg 1)\<lparr>visual := Some True\<rparr>"
  let ?i = "PipePredictor_init (0::nat) ?c False False ''output''
            :: error + (nat, nat, string) PipePredictor"
  let ?p = "projr ?i"
  have a: "?i = Inr ?p" by (simp add: eval_defs)
  have on: "is_not_None (with_attr ?p)" by (simp add: eval_defs)
  have d: "det_predictor ?p = Some (demo_section 1)" by (simp add: eval_defs)
  have t: "trace ?p = []" by (simp add: eval_defs)
  have z: "crop_image_with_det demo_collab
             (map (decode_image demo_collab) (batch_file [''a''] (batch_size (demo_section 1)) 0))
             (fst (det_predict demo_collab (ext ?p)
                (map (decode_image demo_collab)
                   (batch_file [''a''] (batch_size (demo_section 1)) 0)))) = []"
    by (simp add: demo_collab_def)
  have v: "case visual ?c of None \<Rightarrow> False
           | Some v \<Rightarrow> if v then is_not_None (ATTR ?c) \<and> is_not_None (crop_thresh ?c)
                                \<and> det_has_boxes demo_collab
                       else True"
    by (simp add: image_cfg_def det_has_boxes_def demo_collab_def)
  note th = image_tick_no_boxes_empty_attr [OF on d z, where ?w = 0 and ?c = ?c
      and ?multi = False and ?out_dir = "''output''" and ?p0.0 = ?p]
  from th a v have r: "image_ready demo_collab ?p" by blast
  from th r obtain q dd where
    "image_tick demo_collab [''a''] 0 ?p = Inr q"
    "Result_get (pipeline_res q) ''attr'' = Some dd" "dd ''output'' = Some (PyList [])"
    "attr_calls (trace q) = attr_calls (trace ?p)"
    by blast
  with a t show ?thesis by auto
qed

section \<open>Warm-up and the image counter\<close>

text \<open>
  C1 fails in image mode. The counter of a pass of \<open>predict_image\<close> adds the size of the
  batch to \<open>img_num\<close> whatever the index of the pass is, while the counter of a pass of
  \<open>predict_video\<close> adds one only beyond the warm-up. So a run on one image with batches
  of one, whose only pass has index \<open>0\<close> with \<open>warmup_frame = 1\<close>, ends with
  \<open>img_num = 1\<close> although no interval was timed; the run on one frame ends with
  \<open>img_num = 0\<close>.
\<close>

theorem image_count_ignores_warmup:
  "img_num (pipe_timer (image_count batch_input i p))
     = img_num (pipe_timer p) + int (length batch_input)
   \<and> img_num (pipe_timer (video_count frame_id p))
     = (if int frame_id > warmup_frame p then img_num (pipe_timer p) + 1
        else img_num (pipe_timer p))
   \<and> bind_err (PipePredictor_init (0::nat) (image_cfg 1) False False ''output'') (\<lambda>p.
     bind_err (predict_image demo_collab p [''a'']) (\<lambda>q.
     Inr (warmup_frame p, img_num (pipe_timer p), img_num (pipe_timer q),
          total_time (pipe_timer q), module_time (pipe_timer q) ''det'',
          module_time (pipe_timer q) ''attr'', det_batches (trace q))))
     = Inr (1, 0, 1, Times_init, Some Times_init, Some Times_init, [[''a'']])
   \<and> map_option (\<lambda>r. bind_err r (\<lambda>q. Inr (img_num (pipe_timer q), total_time (pipe_timer q),
                                           mot_frames (trace q))))
       (case PipePredictor_init (0::nat) video_cfg True False ''output'' of
          Inl e \<Rightarrow> Some (Inl e)
        | Inr p \<Rightarrow> predict_video demo_collab p (capture_of [''f0'']))
     = Some (Inr (0, Times_init, [''f0'']))"
proof (intro conjI)
  show "img_num (pipe_timer (image_count batch_input i p))
     = img_num (pipe_timer p) + int (length batch_input)"
    by (simp add: image_count_def Let_def total_time_end_def)
  show "img_num (pipe_timer (video_count frame_id p))
     = (if int frame_id > warmup_frame p then img_num (pipe_timer p) + 1
        else img_num (pipe_timer p))"
    by (simp add: video_count_def total_time_end_def)
  show "bind_err (PipePredictor_init (0::nat) (image_cfg 1) False False ''output'') (\<lambda>p.
     bind_err (predict_image demo_collab p [''a'']) (\<lambda>q.
     Inr (warmup_frame p, img_num (pipe_timer p), img_num (pipe_timer q),
          total_time (pipe_timer q), module_time (pipe_timer q) ''det'',
          module_time (pipe_timer q) ''attr'', det_batches (trace q))))
     = Inr (1, 0, 1, Times_init, Some Times_init, Some Times_init, [[''a'']])"
    by (simp add: eval_defs)
  show "map_option (\<lambda>r. bind_err r (\<lambda>q. Inr (img_num (pipe_timer q), total_time (pipe_timer q),
                                           mot_frames (trace q))))
       (case PipePredictor_init (0::nat) video_cfg True False ''output'' of
          Inl e \<Rightarrow> Some (Inl e)
        | Inr p \<Rightarrow> predict_video demo_collab p (capture_of [''f0'']))
     = Some (Inr (0, Times_init, [''f0'']))"
    by (simp add: eval_defs video_loop.simps)
qed

section \<open>The action stage\<close>

text \<open>
  C3 fails: with the action stage on, no frame reaches the write under \<open>action\<close>. The
  constructor of a video predictor with \<open>ACTION\<close> configured raises NameError, since
  \<open>KeyPointDetector\<close> is bound nowhere in the module. And were the three action
  predictors built, the stage of a frame on which the keypoint buffer reports a full
  window does not return: the argument of \<open>update(action, 'action')\<close> is an unbound name,
  so the pass raises NameError after the action predictor has run and before anything is
  written; the pass on the first frame of a video is an instance.
\<close>

theorem action_stage_never_writes:
  "PipePredictor_init w (c\<lparr>MOT := Some m, ACTION := Some a\<rparr>) True multi out_dir
     = (Inl (NameError ''KeyPointDetector'') :: error + ('w, 'a, 'f) PipePredictor)
   \<and> video_action (E\<lparr>collector_state := (\<lambda>w. True)\<rparr>) crop_input p \<noteq> Inr q
   \<and> bind_err (PipePredictor_init (0::nat) video_cfg True False ''output'') (\<lambda>p.
       video_tick demo_collab ''f0'' 0
         (p\<lparr>with_action := Some (demo_section 1), kpt_predictor := Some (),
            kpt_collector := Some (), action_predictor := Some ()\<rparr>))
     = Inl (NameError ''action'')"
proof (intro conjI)
  show "PipePredictor_init w (c\<lparr>MOT := Some m, ACTION := Some a\<rparr>) True multi out_dir
     = (Inl (NameError ''KeyPointDetector'') :: error + ('w, 'a, 'f) PipePredictor)"
    by (cases "ATTR c") (simp_all add: PipePredictor_init_def Let_def)
  show "video_action (E\<lparr>collector_state := (\<lambda>w. True)\<rparr>) crop_input p \<noteq> Inr q"
    by (auto simp: video_action_def bind_err_eq_Inr Let_def case_prod_beta)
  show "bind_err (PipePredictor_init (0::nat) video_cfg True False ''output'') (\<lambda>p.
       video_tick demo_collab ''f0'' 0
         (p\<lparr>with_action := Some (demo_section 1), kpt_predictor := Some (),
            kpt_collector := Some (), action_predictor := Some ()\<rparr>))
     = Inl (NameError ''action'')"
    by (simp add: eval_defs)
qed

section \<open>Multi-camera runs\<close>

text \<open>
  C7 fails: a multi-camera run yields no snapshot. The constructor does build one
  predictor per stream, each from its own constructor call; but \<open>run\<close> in multi-camera
  mode never returns normally, whatever the streams and collaborators are. With two
  video files of one frame each, the pass on the first frame of the first stream raises
  AttributeError, \<open>PipePredictor\<close> having no \<open>get_valid_instance\<close>; with streams that
  have no frame every predictor's run returns, and the call of \<open>mtmct_process\<close>, a name
  bound nowhere, raises NameError.
\<close>

theorem multi_camera_run_raises:
  "Pipeline_run E (pl\<lparr>pl_multi_camera := True\<rparr>) \<noteq> Some (Inr pl')
   \<and> bind_err (Pipeline_init (\<lambda>d f. Inr []) (\<lambda>s. capture_of [''f0'']) (0::nat) video_cfg
                 None None (Some (VideoPaths [''a.mp4'', ''b.mp4''])) (CameraId (- 1)) ''output'')
       (\<lambda>pl. Inr (pl_multi_camera pl,
                   (case pl_predictor pl of Single p \<Rightarrow> 1 | Multi ps \<Rightarrow> length ps),
                   Pipeline_run demo_collab pl))
     = Inr (True, 2, Some (Inl (AttributeError ''get_valid_instance'')))
   \<and> bind_err (Pipeline_init (\<lambda>d f. Inr []) (\<lambda>s. capture_of []) (0::nat) video_cfg
                 None None (Some (VideoPaths [''a.mp4'', ''b.mp4''])) (CameraId (- 1)) ''output'')
       (\<lambda>pl. Inr (Pipeline_run demo_collab pl))
     = Inr (Some (Inl (NameError ''mtmct_process'')))"
proof (intro conjI)
  show "Pipeline_run E (pl\<lparr>pl_multi_camera := True\<rparr>) \<noteq> Some (Inr pl')"
    by (auto simp: Pipeline_run_def
             split: predictors.splits pipe_input.splits option.splits sum.splits prod.splits)
  show "bind_err (Pipeline_init (\<lambda>d f. Inr []) (\<lambda>s. capture_of [''f0'']) (0::nat) video_cfg
                 None None (Some (VideoPaths [''a.mp4'', ''b.mp4''])) (CameraId (- 1)) ''output'')
       (\<lambda>pl. Inr (pl_multi_camera pl,
                   (case pl_predictor pl of Single p \<Rightarrow> 1 | Multi ps \<Rightarrow> length ps),
                   Pipeline_run demo_collab pl))
     = Inr (True, 2, Some (Inl (AttributeError ''get_valid_instance'')))"
    by (simp add: eval_defs video_loop.simps Pipeline_init_def Pipeline_run_def parse_input_def)
  show "bind_err (Pipeline_init (\<lambda>d f. Inr []) (\<lambda>s. capture_of []) (0::nat) video_cfg
                 None None (Some (VideoPaths [''a.mp4'', ''b.mp4''])) (CameraId (- 1)) ''output'')
       (\<lambda>pl. Inr (Pipeline_run demo_collab pl))
     = Inr (Some (Inl (NameError ''mtmct_process'')))"
    by (simp add: eval_defs video_loop.simps Pipeline_init_def Pipeline_run_def parse_input_def)
qed

end
